theory Spec2Isabelle
  imports Complex_Main "HOL-Library.Sublist"
begin

section \<open>JavaScript strings and thrown values\<close>

text \<open>
  A JavaScript string is modelled as a \<^typ>\<open>string\<close>: a list of 8-bit characters, read as
  the code units U+0000 .. U+00FF. Every pattern and every message of the source is
  ASCII. \<open>toLowerCase\<close> maps \<open>A..Z\<close> and the Latin-1 capitals (U+00C0 .. U+00DE but
  U+00D7) to their small letters and leaves every other code unit alone.
\<close>

definition toLowerCase_char :: "char \<Rightarrow> char" where
  "toLowerCase_char c =
     (let n = (of_char c :: nat)
      in if (65 \<le> n \<and> n \<le> 90) \<or> (192 \<le> n \<and> n \<le> 222 \<and> n \<noteq> 215)
         then char_of (n + 32) else c)"

definition toLowerCase :: "string \<Rightarrow> string" where
  "toLowerCase s = map toLowerCase_char s"

text \<open>\<open>s.includes(pat)\<close>: \<open>pat\<close> occurs in \<open>s\<close> as a contiguous run, case-sensitively.\<close>

fun str_includes :: "string \<Rightarrow> string \<Rightarrow> bool" where
  "str_includes [] pat = (pat = [])"
| "str_includes (c # cs) pat = (prefix pat (c # cs) \<or> str_includes cs pat)"

text \<open>
  A thrown value is an \<open>Error\<close> object carrying its \<open>message\<close>, or something that is
  not an instance of \<open>Error\<close>.
\<close>

datatype js_error = Error string | NonError

section \<open>ErrorNormalizer: \<open>parseGeminiError\<close> (src/services/geminiService.ts, lines 10-30)\<close>

definition CONFIGURATION_MSG :: string where
  "CONFIGURATION_MSG = ''The AI service is not configured correctly. Please contact support.''"

definition CREDENTIAL_MSG :: string where
  "CREDENTIAL_MSG = ''API Key not found or invalid. Please select a valid API key and try again.''"

definition QUOTA_MSG :: string where
  "QUOTA_MSG = ''The AI service is currently experiencing high demand. Please try again in a few minutes.''"

definition UNAVAILABLE_MSG :: string where
  "UNAVAILABLE_MSG = ''The AI styling service is temporarily unavailable. Please try again later.''"

definition BLOCKED_MSG :: string where
  "BLOCKED_MSG = ''The request was blocked by the AI. This can happen if an image is unsuitable for processing. Please try a different photo.''"

definition UNKNOWN_MSG :: string where
  "UNKNOWN_MSG = ''An unexpected error occurred with the AI service. Please try again.''"

definition parseGeminiError :: "js_error \<Rightarrow> string" where
  "parseGeminiError error =
     (case error of
        Error m \<Rightarrow>
          (let message = toLowerCase m
           in if str_includes message ''api key not valid'' then CONFIGURATION_MSG
              else if str_includes message ''requested entity was not found'' then CREDENTIAL_MSG
              else if str_includes message ''quota'' then QUOTA_MSG
              else if str_includes message ''503'' \<or> str_includes message ''unavailable''
                then UNAVAILABLE_MSG
              else if str_includes message ''invalid argument''
                      \<or> str_includes message ''request was blocked''
                then BLOCKED_MSG
              else UNKNOWN_MSG)
      | NonError \<Rightarrow> UNKNOWN_MSG)"

text \<open>
  The normalizer as the specification words it: a fixed, ordered list of rules, each a
  set of patterns with its message; the message is lower-cased and the first rule one of
  whose patterns occurs in it decides; the fallback is the unknown-error message.
\<close>

definition normalizer_rules :: "(string list \<times> string) list" where
  "normalizer_rules =
     [([''api key not valid''], CONFIGURATION_MSG),
      ([''requested entity was not found''], CREDENTIAL_MSG),
      ([''quota''], QUOTA_MSG),
      ([''503'', ''unavailable''], UNAVAILABLE_MSG),
      ([''invalid argument'', ''request was blocked''], BLOCKED_MSG)]"

definition first_match_scan :: "(string list \<times> string) list \<Rightarrow> string \<Rightarrow> string" where
  "first_match_scan rules m =
     (case find (\<lambda>rule. list_ex (str_includes (toLowerCase m)) (fst rule)) rules of
        Some rule \<Rightarrow> snd rule
      | None \<Rightarrow> UNKNOWN_MSG)"

section \<open>Data model (types used by src/App.tsx)\<close>

text \<open>
  The records carry the fields that the object literals and property reads of
  src/App.tsx and src/services/geminiService.ts use.
\<close>

record UploadedImage =
  img_base64 :: string
  img_mimeType :: string
  img_url :: string
  img_name :: string

record FilterItem =
  item_id :: string
  item_name :: string
  item_image :: UploadedImage

record TryOnItem = FilterItem +
  category :: string

record SelectedItems =
  outfits :: "FilterItem list"
  tops :: "FilterItem list"
  bottoms :: "FilterItem list"
  footwear :: "FilterItem list"
  headwear :: "FilterItem list"
  accessories :: "FilterItem list"

section \<open>CombinationEngine: \<open>generateOutfitCombinations\<close> (src/App.tsx, lines 17-47)\<close>

text \<open>
  \<open>cartesian(...arrays)\<close>: the empty arrays are filtered out first; \<open>reduce\<close> with the
  initial value \<open>[[]]\<close> is a left fold, \<open>flatMap\<close> is \<open>concat\<close> of \<open>map\<close>.
\<close>

definition cartesian :: "'a list list \<Rightarrow> 'a list list" where
  "cartesian arrays =
     (let nonEmptyArrays = filter (\<lambda>arr. length arr > 0) arrays
      in if length nonEmptyArrays = 0 then [[]]
         else foldl (\<lambda>acc val. concat (map (\<lambda>d. map (\<lambda>e. d @ [e]) val) acc)) [[]] nonEmptyArrays)"

definition toTryOnItem :: "FilterItem \<Rightarrow> string \<Rightarrow> TryOnItem" where
  "toTryOnItem item cat =
     \<lparr>item_id = item_id item, item_name = item_name item, item_image = item_image item,
      category = cat\<rparr>"

text \<open>Lines 26-33: the base layer.\<close>

definition baseItems :: "SelectedItems \<Rightarrow> TryOnItem list list" where
  "baseItems selectedItems =
     (if length (outfits selectedItems) > 0
      then map (\<lambda>item. [toTryOnItem item ''outfits'']) (outfits selectedItems)
      else cartesian [map (\<lambda>item. toTryOnItem item ''tops'') (tops selectedItems),
                      map (\<lambda>item. toTryOnItem item ''bottoms'') (bottoms selectedItems)])"

text \<open>Lines 34-37: the accessory cross product.\<close>

definition accessoryCombos :: "SelectedItems \<Rightarrow> TryOnItem list list" where
  "accessoryCombos selectedItems =
     cartesian [map (\<lambda>item. toTryOnItem item ''footwear'') (footwear selectedItems),
                map (\<lambda>item. toTryOnItem item ''headwear'') (headwear selectedItems),
                map (\<lambda>item. toTryOnItem item ''accessories'') (accessories selectedItems)]"

definition generateOutfitCombinations :: "SelectedItems \<Rightarrow> TryOnItem list list" where
  "generateOutfitCombinations selectedItems =
     (if length (baseItems selectedItems) = 0
      then filter (\<lambda>combo. length combo > 0) (accessoryCombos selectedItems)
      else concat (map (\<lambda>base. map (\<lambda>combo. base @ combo) (accessoryCombos selectedItems))
                       (baseItems selectedItems)))"

section \<open>More of the JavaScript library\<close>

text \<open>
  \<open>s.trim()\<close> strips white space and line terminators at both ends; of the code units
  below 256 these are TAB, LF, VT, FF, CR, SPACE and NO-BREAK SPACE.
\<close>

definition isWhiteSpace :: "char \<Rightarrow> bool" where
  "isWhiteSpace c = ((of_char c :: nat) \<in> set [9, 10, 11, 12, 13, 32, 160])"

definition trim :: "string \<Rightarrow> string" where
  "trim s = rev (dropWhile isWhiteSpace (rev (dropWhile isWhiteSpace s)))"

text \<open>\<open>s.split(sep)\<close> for a one-character separator: always at least one piece.\<close>

fun split_on :: "char \<Rightarrow> string \<Rightarrow> string list" where
  "split_on sep [] = [[]]"
| "split_on sep (c # cs) =
     (if c = sep then [] # split_on sep cs
      else (case split_on sep cs of
              w # ws \<Rightarrow> (c # w) # ws
            | [] \<Rightarrow> [[c]]))"

fun join :: "string \<Rightarrow> string list \<Rightarrow> string" where
  "join sep [] = []"
| "join sep [w] = w"
| "join sep (w # v # ws) = w @ sep @ join sep (v # ws)"

text \<open>A number in a template literal: its decimal digits.\<close>

fun string_of_nat :: "nat \<Rightarrow> string" where
  "string_of_nat n =
     (if n < 10 then [char_of (48 + n)]
      else string_of_nat (n div 10) @ [char_of (48 + n mod 10)])"

declare string_of_nat.simps [simp del]

text \<open>
  Truthiness of a value of type \<open>string | null | undefined\<close>: \<open>None\<close> stands for
  \<open>null\<close> and \<open>undefined\<close>, and the empty string is falsy too.
\<close>

definition truthy :: "string option \<Rightarrow> bool" where
  "truthy r = (case r of None \<Rightarrow> False | Some s \<Rightarrow> s \<noteq> [])"

section \<open>src/utils/imageUtils.ts\<close>

record blob =
  blob_bytes :: "nat list"
  blob_type :: string

text \<open>
  \<open>base64ToBlob\<close> (lines 33-41). \<open>atob\<close> is the browser's decoder: it returns the
  decoded binary string or throws; it is a parameter. The loop copies the character
  codes, and \<open>Uint8Array\<close> keeps each modulo 256.
\<close>

definition base64ToBlob :: "(string \<Rightarrow> js_error + string) \<Rightarrow> string \<Rightarrow> string \<Rightarrow> js_error + blob" where
  "base64ToBlob atob_fn base64 mimeType =
     (case atob_fn base64 of
        Inl e \<Rightarrow> Inl e
      | Inr byteCharacters \<Rightarrow>
          Inr \<lparr>blob_bytes = map (\<lambda>c. (of_char c :: nat) mod 256) byteCharacters,
               blob_type = mimeType\<rparr>)"

text \<open>
  \<open>readFileAsBase64\<close> (lines 7-25) over what the \<open>FileReader\<close> does: it fails
  (\<open>onerror\<close> fires first and rejects), or it ends with a result that is a string (the
  data URL) or not. The resolved value is \<open>result.split(',')[1]\<close>, \<open>undefined\<close> when
  the string has no comma.
\<close>

datatype reader_outcome = ReaderError | ReaderResult "string option"

definition readFileAsBase64 :: "reader_outcome \<Rightarrow> js_error + string option" where
  "readFileAsBase64 r =
     (case r of
        ReaderError \<Rightarrow> Inl (Error ''There was an error reading the file.'')
      | ReaderResult None \<Rightarrow> Inl (Error ''Failed to read file as a data URL string.'')
      | ReaderResult (Some dataUrl) \<Rightarrow>
          (let pieces = split_on CHR '','' dataUrl
           in Inr (if 1 < length pieces then Some (pieces ! 1) else None)))"

section \<open>Service calls (src/services/geminiService.ts)\<close>

text \<open>
  What \<open>ai.models.generateContent\<close> answers is decided outside the repository, so the
  outcome of a call is an input of the model: a thrown value, or a response. Of a
  response the code reads \<open>response.candidates?.[0]?.content?.parts || []\<close>, a list of
  parts, and of a part its \<open>inlineData\<close>: absent, or an object whose \<open>data\<close> is a
  string or absent.
\<close>

datatype part = InlineData "string option" | OtherPart

datatype service_outcome = Throws js_error | Responds "part list"

text \<open>The loop of lines 124-128 (and 162-166): the data of the first part with \<open>inlineData\<close>.\<close>

fun firstInlineData :: "part list \<Rightarrow> string option option" where
  "firstInlineData [] = None"
| "firstInlineData (InlineData d # ps) = Some d"
| "firstInlineData (OtherPart # ps) = firstInlineData ps"

definition NO_IMAGE_TRYON_MSG :: string where
  "NO_IMAGE_TRYON_MSG = ''The AI model did not return an image. This can happen if the input is unclear or violates safety policies. Please try a different photo.''"

definition NO_IMAGE_EDIT_MSG :: string where
  "NO_IMAGE_EDIT_MSG = ''The AI model did not return an image. Please try a different prompt or image.''"

text \<open>
  \<open>virtualTryOn\<close> (lines 87-137). The \<open>try\<close> block returns the image data or throws:
  what the service threw, or the no-image \<open>Error\<close> of line 130, which is thrown inside
  the \<open>try\<close> as well. The \<open>catch\<close> block passes whatever was thrown to
  \<open>parseGeminiError\<close> and throws a new \<open>Error\<close> with the result.
\<close>

definition virtualTryOn_try :: "service_outcome \<Rightarrow> js_error + string option" where
  "virtualTryOn_try response =
     (case response of
        Throws e \<Rightarrow> Inl e
      | Responds parts \<Rightarrow>
          (case firstInlineData parts of
             Some d \<Rightarrow> Inr d
           | None \<Rightarrow> Inl (Error NO_IMAGE_TRYON_MSG)))"

definition virtualTryOn :: "service_outcome \<Rightarrow> js_error + string option" where
  "virtualTryOn response =
     (case virtualTryOn_try response of
        Inl error \<Rightarrow> Inl (Error (parseGeminiError error))
      | Inr d \<Rightarrow> Inr d)"

text \<open>\<open>editImage\<close> (lines 142-175): the same shape, with its own no-image message.\<close>

definition editImage_try :: "service_outcome \<Rightarrow> js_error + string option" where
  "editImage_try response =
     (case response of
        Throws e \<Rightarrow> Inl e
      | Responds parts \<Rightarrow>
          (case firstInlineData parts of
             Some d \<Rightarrow> Inr d
           | None \<Rightarrow> Inl (Error NO_IMAGE_EDIT_MSG)))"

definition editImage :: "service_outcome \<Rightarrow> js_error + string option" where
  "editImage response =
     (case editImage_try response of
        Inl error \<Rightarrow> Inl (Error (parseGeminiError error))
      | Inr d \<Rightarrow> Inr d)"

text \<open>
  \<open>classifyClothingItem\<close> (lines 38-84): the service call throws, or
  \<open>JSON.parse(response.text)\<close> (or the read of \<open>.category\<close>) throws, or the
  \<open>category\<close> property is read: a string or absent. A falsy category throws inside the
  \<open>try\<close>; the \<open>catch\<close> block normalizes whatever was thrown.
\<close>

datatype classify_outcome =
  ClassifyThrows js_error | ClassifyParseFails js_error | ClassifyCategory "string option"

definition classifyClothingItem_try :: "classify_outcome \<Rightarrow> js_error + string" where
  "classifyClothingItem_try response =
     (case response of
        ClassifyThrows e \<Rightarrow> Inl e
      | ClassifyParseFails e \<Rightarrow> Inl e
      | ClassifyCategory c \<Rightarrow>
          (if \<not> truthy c then Inl (Error ''AI could not determine a valid category.'')
           else Inr (case c of Some cat \<Rightarrow> cat | None \<Rightarrow> [])))"

definition classifyClothingItem :: "classify_outcome \<Rightarrow> js_error + string" where
  "classifyClothingItem response =
     (case classifyClothingItem_try response of
        Inl error \<Rightarrow> Inl (Error (parseGeminiError error))
      | Inr cat \<Rightarrow> Inr cat)"

section \<open>Observable events\<close>

text \<open>
  The calls a handler makes to the outside (service, browser, credential gate) and the
  waits it makes, in the order in which it makes them.
\<close>

datatype event =
    EvVirtualTryOn "TryOnItem list"
  | EvEditImage string
  | EvHasSelectedApiKey
  | EvOpenSelectKey
  | EvGenerateVideos string
  | EvSetTimeout nat
  | EvGetVideosOperation
  | EvFetch string
  | EvTaskAdded string
  | EvReadFile string
  | EvClassify string
  | EvItemAdded string string
  | EvTaskRemoved string
  | EvTaskFailed string string

section \<open>LongRunningOperationPoller: \<open>generateVideo\<close> (lines 180-231)\<close>

text \<open>
  Of an operation the code reads \<open>done\<close> and
  \<open>response?.generatedVideos?.[0]?.video?.uri\<close>.
\<close>

record operation =
  op_done :: bool
  op_uri :: "string option"

datatype fetch_outcome = FetchThrows js_error | FetchResponse bool string blob

text \<open>
  The outside of \<open>generateVideo\<close>: the key, the answer to the submission, the answer to
  the \<open>i\<close>-th poll, what \<open>fetch\<close> does with a URL (a response carries \<open>ok\<close>,
  \<open>statusText\<close> and its body), and the URL the browser gives to a blob.
\<close>

record video_env =
  API_KEY :: string
  generateVideos :: "js_error + operation"
  getVideosOperation :: "nat \<Rightarrow> js_error + operation"
  fetch :: "string \<Rightarrow> fetch_outcome"
  videoObjectURL :: "blob \<Rightarrow> string"

text \<open>
  The loop of lines 206-209. It has no bound: where the operation never reports
  \<open>done\<close> and no poll throws, it does not return, which is the value \<open>None\<close>.
\<close>

partial_function (option) pollLoop ::
  "(nat \<Rightarrow> js_error + operation) \<Rightarrow> nat \<Rightarrow> operation \<Rightarrow> event list
     \<Rightarrow> ((js_error + operation) \<times> event list) option" where
  "pollLoop polls i operation tr =
     (if op_done operation then Some (Inr operation, tr)
      else (case polls i of
              Inl e \<Rightarrow> Some (Inl e, tr @ [EvSetTimeout 10000, EvGetVideosOperation])
            | Inr operation' \<Rightarrow>
                pollLoop polls (Suc i) operation' (tr @ [EvSetTimeout 10000, EvGetVideosOperation])))"

definition NO_LINK_MSG :: string where
  "NO_LINK_MSG = ''Video generation completed, but no download link was found.''"

text \<open>Lines 211-224, after the loop.\<close>

definition downloadVideo :: "video_env \<Rightarrow> operation \<Rightarrow> event list \<Rightarrow> (js_error + string) \<times> event list" where
  "downloadVideo env operation tr =
     (let downloadLink = op_uri operation
      in if \<not> truthy downloadLink then (Inl (Error NO_LINK_MSG), tr)
         else (let url = (case downloadLink of Some l \<Rightarrow> l | None \<Rightarrow> []) @ ''&key='' @ API_KEY env
               in (case fetch env url of
                     FetchThrows e \<Rightarrow> (Inl e, tr @ [EvFetch url])
                   | FetchResponse ok statusText videoBlob \<Rightarrow>
                       (if \<not> ok
                        then (Inl (Error (''Failed to download video: '' @ statusText)), tr @ [EvFetch url])
                        else (Inr (videoObjectURL env videoBlob), tr @ [EvFetch url])))))"

definition generateVideo_try :: "video_env \<Rightarrow> string \<Rightarrow> ((js_error + string) \<times> event list) option" where
  "generateVideo_try env prompt =
     (case generateVideos env of
        Inl e \<Rightarrow> Some (Inl e, [EvGenerateVideos prompt])
      | Inr operation \<Rightarrow>
          (case pollLoop (getVideosOperation env) 0 operation [EvGenerateVideos prompt] of
             None \<Rightarrow> None
           | Some (Inl e, tr) \<Rightarrow> Some (Inl e, tr)
           | Some (Inr operation', tr) \<Rightarrow> Some (downloadVideo env operation' tr)))"

definition generateVideo :: "video_env \<Rightarrow> string \<Rightarrow> ((js_error + string) \<times> event list) option" where
  "generateVideo env prompt =
     (case generateVideo_try env prompt of
        None \<Rightarrow> None
      | Some (Inl error, tr) \<Rightarrow> Some (Inl (Error (parseGeminiError error)), tr)
      | Some (Inr videoUrl, tr) \<Rightarrow> Some (Inr videoUrl, tr))"

section \<open>Application state (src/App.tsx, lines 49-86)\<close>

datatype CreativeMode = TryOn | Edit | Video

datatype gender = Female | Male

datatype input_mode = Camera | Upload

datatype aspect_ratio = Landscape_16_9 | Portrait_9_16

record ClassifyingItem =
  task_id :: string
  task_name :: string
  task_url :: string
  task_error :: "string option"

text \<open>
  The state variables of the \<open>App\<close> component. A catalogue is a
  \<open>Record<string, FilterItem[]>\<close>: a map from category names to item lists.
\<close>

record app_state =
  mode :: CreativeMode
  selectedImage :: "UploadedImage option"
  workspaceItems :: "UploadedImage list"
  generatedImages :: "string list"
  generatedVideoUrl :: "string option"
  isLoading :: bool
  error :: "string option"
  inputMode :: input_mode
  elapsedTime :: "real option"
  gender :: gender
  classifyingItems :: "ClassifyingItem list"
  isApiKeySelected :: bool
  editPrompt :: string
  videoPrompt :: string
  videoAspectRatio :: aspect_ratio
  femaleCatalogue :: "string \<rightharpoonup> FilterItem list"
  maleCatalogue :: "string \<rightharpoonup> FilterItem list"
  selectedItems :: SelectedItems

section \<open>GenerationOrchestrator: \<open>handleGenerate\<close> (src/App.tsx, lines 173-264)\<close>

text \<open>
  A state setter that is given an updater function (\<open>setWorkspaceItems(prev => ...)\<close>)
  hands the function to React. React documents that it queues the function and calls it
  during the next render; a root in legacy synchronous mode renders inside a setter that
  is called after an \<open>await\<close>, and so calls the function before the setter returns.
  Which of the two happens is decided outside the repository, so it is an input of the
  model. The updater is taken to be called once.
\<close>

datatype updater_timing = AtCall | AtNextRender

text \<open>
  The outside of one \<open>handleGenerate\<close> run: the outcome of the \<open>i\<close>-th
  \<open>generateContent\<close> call, \<open>atob\<close>, the URL that \<open>URL.createObjectURL\<close> returns
  at its \<open>i\<close>-th call for a blob, \<open>window.aistudio.hasSelectedApiKey()\<close>, the two
  readings of \<open>performance.now()\<close>, the video service and the timing of updaters.
  Every awaited call settles (the video poll loop apart), \<open>hasSelectedApiKey\<close> and
  \<open>openSelectKey\<close> resolve, and no other handler runs while this one is suspended.
\<close>

record env =
  generateContent :: "nat \<Rightarrow> service_outcome"
  atob :: "string \<Rightarrow> js_error + string"
  createObjectURL :: "nat \<Rightarrow> blob \<Rightarrow> string"
  hasSelectedApiKey :: bool
  startTime :: real
  endTime :: real
  video :: video_env
  updaterTiming :: updater_timing

text \<open>
  Lines 192-199, the render loop: \<open>i\<close> counts the calls, \<open>results\<close> is the array of
  the same name (and what \<open>setGeneratedImages([...results])\<close> last published). A
  throw of \<open>virtualTryOn\<close> leaves the loop at once.
\<close>

fun tryOnLoop ::
  "(nat \<Rightarrow> service_outcome) \<Rightarrow> nat \<Rightarrow> TryOnItem list list \<Rightarrow> string list \<Rightarrow> event list
     \<Rightarrow> js_error option \<times> string list \<times> event list" where
  "tryOnLoop gc i [] results tr = (None, results, tr)"
| "tryOnLoop gc i (outfit # rest) results tr =
     (case virtualTryOn (gc i) of
        Inl e \<Rightarrow> (Some e, results, tr @ [EvVirtualTryOn outfit])
      | Inr result \<Rightarrow>
          tryOnLoop gc (Suc i) rest
            (if truthy result then results @ [case result of Some r \<Rightarrow> r | None \<Rightarrow> []] else results)
            (tr @ [EvVirtualTryOn outfit]))"

text \<open>
  Lines 202-213: one new workspace entry per result, \<open>index\<close> counting from 0. The
  entry of lines 206-211 first.
\<close>

definition newTryOnItem :: "env \<Rightarrow> UploadedImage \<Rightarrow> nat \<Rightarrow> string \<Rightarrow> blob \<Rightarrow> UploadedImage" where
  "newTryOnItem env img index result b =
     \<lparr>img_base64 = result, img_mimeType = ''image/png'',
      img_url = createObjectURL env index b,
      img_name = ''try-on-'' @ string_of_nat (index + 1) @ ''-'' @ img_name img\<rparr>"

fun buildNewItems :: "env \<Rightarrow> UploadedImage \<Rightarrow> nat \<Rightarrow> string list \<Rightarrow> js_error + UploadedImage list" where
  "buildNewItems env img index [] = Inr []"
| "buildNewItems env img index (result # rest) =
     (case base64ToBlob (atob env) result ''image/png'' of
        Inl e \<Rightarrow> Inl e
      | Inr b \<Rightarrow>
          (case buildNewItems env img (Suc index) rest of
             Inl e \<Rightarrow> Inl e
           | Inr newItems \<Rightarrow> Inr (newTryOnItem env img index result b # newItems)))"

text \<open>
  The updater of line 214, \<open>prev => [...newItems.reverse(), ...prev]\<close>: it reverses the
  array \<open>newItems\<close> in place; the result is the array afterwards and the new list.
\<close>

definition workspaceUpdater :: "UploadedImage list \<Rightarrow> UploadedImage list \<Rightarrow> UploadedImage list \<times> UploadedImage list" where
  "workspaceUpdater newItems prev = (let reversed = rev newItems in (reversed, reversed @ prev))"

text \<open>
  Lines 214-217 and the render that follows: \<open>setSelectedImage(newItems[0])\<close> reads
  the array as it is when line 216 runs.
\<close>

definition materialize :: "updater_timing \<Rightarrow> UploadedImage list \<Rightarrow> app_state \<Rightarrow> app_state" where
  "materialize timing newItems s =
     (let atLine214 = (case timing of
                         AtCall \<Rightarrow> workspaceUpdater newItems (workspaceItems s)
                       | AtNextRender \<Rightarrow> (newItems, workspaceItems s));
          array = fst atLine214;
          selected = (if length array > 0 then Some (array ! 0) else selectedImage s);
          workspace = (case timing of
                         AtCall \<Rightarrow> snd atLine214
                       | AtNextRender \<Rightarrow> snd (workspaceUpdater array (workspaceItems s)))
      in s\<lparr>workspaceItems := workspace, selectedImage := selected\<rparr>)"

text \<open>
  The three branches of the \<open>try\<close> block. Each returns what was thrown (if anything),
  the state as the setters left it, and the events.
\<close>

definition tryOnBranch :: "env \<Rightarrow> UploadedImage \<Rightarrow> app_state \<Rightarrow> js_error option \<times> app_state \<times> event list" where
  "tryOnBranch env img s =
     (let outfitsToTry = generateOutfitCombinations (selectedItems s)
      in if length outfitsToTry = 0
         then (Some (Error ''Please select at least one clothing item.''), s, [])
         else if list_ex (\<lambda>item. img_base64 (item_image item) = []) (concat outfitsToTry)
         then (Some (Error ''A selected style is a placeholder. Please upload real clothing items.''), s, [])
         else (case tryOnLoop (generateContent env) 0 outfitsToTry [] [] of
                 (Some e, results, tr) \<Rightarrow> (Some e, s\<lparr>generatedImages := results\<rparr>, tr)
               | (None, results, tr) \<Rightarrow>
                   (if length results > 0
                    then (case buildNewItems env img 0 results of
                            Inl e \<Rightarrow> (Some e, s\<lparr>generatedImages := results\<rparr>, tr)
                          | Inr newItems \<Rightarrow>
                              (None, materialize (updaterTiming env) newItems (s\<lparr>generatedImages := results\<rparr>), tr))
                    else (None, s\<lparr>generatedImages := results\<rparr>, tr))))"

definition editBranch :: "env \<Rightarrow> UploadedImage \<Rightarrow> app_state \<Rightarrow> js_error option \<times> app_state \<times> event list" where
  "editBranch env img s =
     (if trim (editPrompt s) = []
      then (Some (Error ''Please enter an edit description.''), s, [])
      else (case editImage (generateContent env 0) of
              Inl e \<Rightarrow> (Some e, s, [EvEditImage (editPrompt s)])
            | Inr result \<Rightarrow>
                (if truthy result
                 then (let r = (case result of Some r \<Rightarrow> r | None \<Rightarrow> []);
                           s1 = s\<lparr>generatedImages := [r]\<rparr>
                       in (case base64ToBlob (atob env) r ''image/png'' of
                             Inl e \<Rightarrow> (Some e, s1, [EvEditImage (editPrompt s)])
                           | Inr b \<Rightarrow>
                               (let newItem = \<lparr>img_base64 = r, img_mimeType = ''image/png'',
                                               img_url = createObjectURL env 0 b,
                                               img_name = ''edit-'' @ take 20 (img_name img)\<rparr>
                                in (None,
                                    s1\<lparr>workspaceItems := newItem # workspaceItems s1,
                                       selectedImage := Some newItem\<rparr>,
                                    [EvEditImage (editPrompt s)]))))
                 else (None, s, [EvEditImage (editPrompt s)]))))"

definition RETRY_MSG :: string where
  "RETRY_MSG = ''API Key selected. Please click 'Generate Video' again to proceed.''"

definition videoBranch :: "env \<Rightarrow> UploadedImage \<Rightarrow> app_state \<Rightarrow> (js_error option \<times> app_state \<times> event list) option" where
  "videoBranch env img s =
     (if trim (videoPrompt s) = []
      then Some (Some (Error ''Please enter a video description.''), s, [])
      else if \<not> hasSelectedApiKey env
      then Some (Some (Error RETRY_MSG), s\<lparr>isApiKeySelected := True\<rparr>,
                 [EvHasSelectedApiKey, EvOpenSelectKey])
      else (case generateVideo (video env) (videoPrompt s) of
              None \<Rightarrow> None
            | Some (Inr videoUrl, tr) \<Rightarrow>
                Some (None, s\<lparr>generatedVideoUrl := Some videoUrl\<rparr>, EvHasSelectedApiKey # tr)
            | Some (Inl videoError, tr) \<Rightarrow>
                Some (Some videoError,
                      (if (case videoError of
                             Error m \<Rightarrow> str_includes m ''API Key not found''
                           | NonError \<Rightarrow> False)
                       then s\<lparr>isApiKeySelected := False\<rparr> else s),
                      EvHasSelectedApiKey # tr)))"

text \<open>The \<open>catch\<close> and \<open>finally\<close> blocks (lines 257-263).\<close>

definition finish :: "env \<Rightarrow> js_error option \<times> app_state \<times> event list \<Rightarrow> app_state \<times> event list" where
  "finish env r =
     (case r of (thrown, s, tr) \<Rightarrow>
        ((case thrown of
            None \<Rightarrow> s
          | Some err \<Rightarrow>
              s\<lparr>error := Some (case err of Error m \<Rightarrow> m | NonError \<Rightarrow> ''An unknown error occurred.'')\<rparr>)
         \<lparr>isLoading := False, elapsedTime := Some ((endTime env - startTime env) / 1000)\<rparr>,
         tr))"

text \<open>
  \<open>handleGenerate\<close>: the state after the run and the render that follows it, with the
  events of the run; \<open>None\<close> when the run does not end (the video poll loop).
\<close>

definition handleGenerate :: "env \<Rightarrow> app_state \<Rightarrow> (app_state \<times> event list) option" where
  "handleGenerate env s =
     (case selectedImage s of
        None \<Rightarrow> Some (s\<lparr>error := Some ''Please select a photo from the workspace first.''\<rparr>, [])
      | Some img \<Rightarrow>
          (let s0 = s\<lparr>isLoading := True, generatedImages := [], generatedVideoUrl := None,
                      error := None, elapsedTime := None\<rparr>
           in map_option (finish env)
                (case mode s of
                   TryOn \<Rightarrow> Some (tryOnBranch env img s0)
                 | Edit \<Rightarrow> Some (editBranch env img s0)
                 | Video \<Rightarrow> videoBranch env img s0)))"

section \<open>ClassificationQueue: \<open>handleStyleUpload\<close> (src/App.tsx, lines 88-116)\<close>

record File =
  file_name :: string
  file_type :: string

text \<open>
  The outside of one \<open>handleStyleUpload\<close> run, per file by its position in the batch:
  the reading of \<open>Date.now()\<close>, the URL of \<open>URL.createObjectURL(file)\<close>, what the
  \<open>FileReader\<close> does and what the classification call does. Every awaited call
  settles, and no other handler runs while this one is suspended.
\<close>

record upload_env =
  Date_now :: "nat \<Rightarrow> nat"
  fileObjectURL :: "nat \<Rightarrow> string"
  reader :: "nat \<Rightarrow> reader_outcome"
  classifyContent :: "nat \<Rightarrow> classify_outcome"

text \<open>\<open>handleItemAdd\<close> (lines 88-94): the catalogue of the current gender gets the item.\<close>

definition addToCatalogue :: "(string \<rightharpoonup> FilterItem list) \<Rightarrow> FilterItem \<Rightarrow> string \<Rightarrow> (string \<rightharpoonup> FilterItem list)" where
  "addToCatalogue prevCatalogue item cat =
     prevCatalogue(cat \<mapsto> (case prevCatalogue cat of Some items \<Rightarrow> items | None \<Rightarrow> []) @ [item])"

definition handleItemAdd :: "FilterItem \<Rightarrow> string \<Rightarrow> app_state \<Rightarrow> app_state" where
  "handleItemAdd item cat s =
     (if gender s = Female
      then s\<lparr>femaleCatalogue := addToCatalogue (femaleCatalogue s) item cat\<rparr>
      else s\<lparr>maleCatalogue := addToCatalogue (maleCatalogue s) item cat\<rparr>)"

text \<open>\<open>file.name.split('.').slice(0, -1).join('.') || 'Style Item'\<close> (line 106).\<close>

definition itemNameOf :: "string \<Rightarrow> string" where
  "itemNameOf fileName =
     (let base = join ''.'' (butlast (split_on CHR ''.'' fileName))
      in if base = [] then ''Style Item'' else base)"

definition tempIdOf :: "upload_env \<Rightarrow> nat \<Rightarrow> File \<Rightarrow> string" where
  "tempIdOf env i f = string_of_nat (Date_now env i) @ ''-'' @ file_name f"

text \<open>
  The \<open>try\<close> block of lines 102-108 for the \<open>i\<close>-th file, after the task was added: the
  thrown value or the new state, with the events. A base64 string that is
  \<open>undefined\<close> is kept as the empty string (both are falsy).
\<close>

definition classifyFile ::
  "upload_env \<Rightarrow> nat \<Rightarrow> File \<Rightarrow> app_state \<Rightarrow> (js_error + app_state) \<times> event list" where
  "classifyFile env i f s =
     (let tempId = tempIdOf env i f
      in (case readFileAsBase64 (reader env i) of
            Inl e \<Rightarrow> (Inl e, [EvReadFile (file_name f)])
          | Inr base64String \<Rightarrow>
              (case classifyClothingItem (classifyContent env i) of
                 Inl e \<Rightarrow> (Inl e, [EvReadFile (file_name f), EvClassify (file_name f)])
               | Inr cat \<Rightarrow>
                   (let uploadedImage =
                          \<lparr>img_base64 = (case base64String of Some b \<Rightarrow> b | None \<Rightarrow> []),
                           img_mimeType = file_type f, img_url = fileObjectURL env i,
                           img_name = file_name f\<rparr>;
                        newItem = \<lparr>item_id = tempId, item_name = itemNameOf (file_name f),
                                   item_image = uploadedImage\<rparr>;
                        s1 = handleItemAdd newItem cat s
                    in (Inr (s1\<lparr>classifyingItems :=
                                   filter (\<lambda>item. task_id item \<noteq> tempId) (classifyingItems s1)\<rparr>),
                        [EvReadFile (file_name f), EvClassify (file_name f), EvItemAdded tempId cat,
                         EvTaskRemoved tempId])))))"

text \<open>One turn of the \<open>for\<close> loop (lines 99-114), the cooldown included.\<close>

definition processFile :: "upload_env \<Rightarrow> nat \<Rightarrow> File \<Rightarrow> app_state \<Rightarrow> app_state \<times> event list" where
  "processFile env i f s =
     (let tempId = tempIdOf env i f;
          s1 = s\<lparr>classifyingItems := classifyingItems s @
                    [\<lparr>task_id = tempId, task_name = file_name f, task_url = fileObjectURL env i,
                      task_error = None\<rparr>]\<rparr>
      in (case classifyFile env i f s1 of
            (Inr s2, tr) \<Rightarrow> (s2, EvTaskAdded tempId # tr @ [EvSetTimeout 4500])
          | (Inl err, tr) \<Rightarrow>
              (let errorMessage = (case err of Error m \<Rightarrow> m | NonError \<Rightarrow> ''Classification failed.'')
               in (s1\<lparr>classifyingItems :=
                        map (\<lambda>item. if task_id item = tempId
                                     then item\<lparr>task_error := Some errorMessage\<rparr> else item)
                            (classifyingItems s1)\<rparr>,
                   EvTaskAdded tempId # tr @ [EvTaskFailed tempId errorMessage, EvSetTimeout 4500]))))"

fun uploadLoop :: "upload_env \<Rightarrow> nat \<Rightarrow> File list \<Rightarrow> app_state \<Rightarrow> app_state \<times> event list" where
  "uploadLoop env i [] s = (s, [])"
| "uploadLoop env i (f # files) s =
     (case processFile env i f s of
        (s1, tr) \<Rightarrow> (case uploadLoop env (Suc i) files s1 of (s2, tr') \<Rightarrow> (s2, tr @ tr')))"

definition handleStyleUpload :: "upload_env \<Rightarrow> File list \<Rightarrow> app_state \<Rightarrow> app_state \<times> event list" where
  "handleStyleUpload env files s = uploadLoop env 0 files s"

section \<open>The workspace entries of a try-on run\<close>

text \<open>
  What lines 202-213 build when \<open>atob\<close> decodes every result (\<open>decoded r\<close> is the
  binary string of \<open>r\<close>): the blob of \<open>base64ToBlob(result, 'image/png')\<close> and, result
  by result, the entry of lines 206-211.
\<close>

definition decodedBlob :: "string \<Rightarrow> blob" where
  "decodedBlob bytes = \<lparr>blob_bytes = map (\<lambda>c. (of_char c :: nat) mod 256) bytes, blob_type = ''image/png''\<rparr>"

definition tryOnEntries :: "env \<Rightarrow> UploadedImage \<Rightarrow> (string \<Rightarrow> string) \<Rightarrow> string list \<Rightarrow> UploadedImage list" where
  "tryOnEntries env img decoded images =
     map (\<lambda>(i, r). newTryOnItem env img i r (decodedBlob (decoded r))) (enumerate 0 images)"

text \<open>
  The images of a run of the render loop, from what its calls returned, in order: the
  data that line 195 finds truthy and pushes.
\<close>

definition producedImages :: "string option list \<Rightarrow> string list" where
  "producedImages returned =
     map (\<lambda>r. case r of Some d \<Rightarrow> d | None \<Rightarrow> []) (filter truthy returned)"

section \<open>The events of a video run and of an upload batch\<close>

text \<open>
  The events of \<open>generateVideo\<close> up to the end of its poll loop when it polls \<open>n\<close>
  times: the submission, then \<open>n\<close> times a wait of 10000 ms followed by a poll.
\<close>

definition pollTrace :: "string \<Rightarrow> nat \<Rightarrow> event list" where
  "pollTrace prompt n =
     EvGenerateVideos prompt # concat (replicate n [EvSetTimeout 10000, EvGetVideosOperation])"

text \<open>
  What goes wrong for the \<open>i\<close>-th file of a batch, if anything (the read, then the
  classification), and the message that line 110 makes of it.
\<close>

definition fileFailure :: "upload_env \<Rightarrow> nat \<Rightarrow> js_error option" where
  "fileFailure env i =
     (case readFileAsBase64 (reader env i) of
        Inl e \<Rightarrow> Some e
      | Inr b \<Rightarrow> (case classifyClothingItem (classifyContent env i) of
                    Inl e \<Rightarrow> Some e
                  | Inr cat \<Rightarrow> None))"

definition errorMessageOf :: "js_error \<Rightarrow> string" where
  "errorMessageOf err = (case err of Error m \<Rightarrow> m | NonError \<Rightarrow> ''Classification failed.'')"

text \<open>
  The events of one turn of the upload loop, for the file with this temporary id and
  name: the task is added; the file is read; unless the read failed, the classification
  is requested; the task fails with a message, or the item is added and the task is
  removed; then the cooldown of 4500 ms.
\<close>

definition is_failed :: "string \<Rightarrow> event \<Rightarrow> bool" where
  "is_failed tempId e = (case e of EvTaskFailed t msg \<Rightarrow> t = tempId | _ \<Rightarrow> False)"

definition is_added :: "string \<Rightarrow> event \<Rightarrow> bool" where
  "is_added tempId e = (case e of EvItemAdded t cat \<Rightarrow> t = tempId | _ \<Rightarrow> False)"

definition is_block :: "string \<Rightarrow> string \<Rightarrow> event list \<Rightarrow> bool" where
  "is_block tempId fileName b \<longleftrightarrow>
     (length b = 4 \<and> take 2 b = [EvTaskAdded tempId, EvReadFile fileName]
        \<and> is_failed tempId (b ! 2) \<and> b ! 3 = EvSetTimeout 4500)
   \<or> (length b = 5 \<and> take 3 b = [EvTaskAdded tempId, EvReadFile fileName, EvClassify fileName]
        \<and> is_failed tempId (b ! 3) \<and> b ! 4 = EvSetTimeout 4500)
   \<or> (length b = 6 \<and> take 3 b = [EvTaskAdded tempId, EvReadFile fileName, EvClassify fileName]
        \<and> is_added tempId (b ! 3) \<and> b ! 4 = EvTaskRemoved tempId \<and> b ! 5 = EvSetTimeout 4500)"

text \<open>
  The tasks that a batch leaves in \<open>classifyingItems\<close>: one per failed file, in
  submission order, with its message; and the temporary ids of a batch.
\<close>

fun failedTasks :: "upload_env \<Rightarrow> nat \<Rightarrow> File list \<Rightarrow> ClassifyingItem list" where
  "failedTasks env i [] = []"
| "failedTasks env i (f # files) =
     (case fileFailure env i of
        Some err \<Rightarrow> [\<lparr>task_id = tempIdOf env i f, task_name = file_name f,
                       task_url = fileObjectURL env i, task_error = Some (errorMessageOf err)\<rparr>]
      | None \<Rightarrow> [])
     @ failedTasks env (Suc i) files"

definition batchIds :: "upload_env \<Rightarrow> nat \<Rightarrow> File list \<Rightarrow> string list" where
  "batchIds env i files = map (\<lambda>(j, f). tempIdOf env j f) (enumerate i files)"

section \<open>Sample inputs\<close>

definition img0 :: UploadedImage where
  "img0 = \<lparr>img_base64 = ''QQ=='', img_mimeType = ''image/png'', img_url = ''blob:0'', img_name = ''a.png''\<rparr>"

definition itemA :: FilterItem where "itemA = \<lparr>item_id = ''1'', item_name = ''A'', item_image = img0\<rparr>"
definition itemB :: FilterItem where "itemB = \<lparr>item_id = ''2'', item_name = ''B'', item_image = img0\<rparr>"
definition itemC :: FilterItem where "itemC = \<lparr>item_id = ''3'', item_name = ''C'', item_image = img0\<rparr>"

definition selOutfits :: SelectedItems where
  "selOutfits = \<lparr>outfits = [itemA, itemB], tops = [itemC], bottoms = [itemC], footwear = [itemC],
                 headwear = [], accessories = []\<rparr>"

definition selTopsBottoms :: SelectedItems where
  "selTopsBottoms = \<lparr>outfits = [], tops = [itemA, itemB], bottoms = [itemC], footwear = [],
                     headwear = [], accessories = []\<rparr>"

definition state0 :: app_state where
  "state0 = \<lparr>mode = TryOn, selectedImage = Some img0, workspaceItems = [img0],
             generatedImages = [], generatedVideoUrl = None, isLoading = False, error = None,
             inputMode = Camera, elapsedTime = None, gender = Female, classifyingItems = [], isApiKeySelected = False,
             editPrompt = ''Make this photo look like a vintage film still.'',
             videoPrompt = ''A model walking on a runway.'', videoAspectRatio = Portrait_9_16,
             femaleCatalogue = Map.empty, maleCatalogue = Map.empty,
             selectedItems = selTopsBottoms\<rparr>"

definition videoEnv0 :: video_env where
  "videoEnv0 = \<lparr>API_KEY = ''k'', generateVideos = Inl (Error ''Requested entity was not found.''),
                getVideosOperation = (\<lambda>i. Inl NonError), fetch = (\<lambda>u. FetchThrows NonError),
                videoObjectURL = (\<lambda>b. ''blob:video'')\<rparr>"

definition envSecondFails :: env where
  "envSecondFails =
     \<lparr>generateContent = (\<lambda>i. if i = 0 then Responds [OtherPart, InlineData (Some ''aGk='')]
                               else Throws (Error ''503 Service Unavailable'')),
       atob = (\<lambda>b. Inr ''hi''), createObjectURL = (\<lambda>i b. ''blob:'' @ string_of_nat i),
       hasSelectedApiKey = False, startTime = 0, endTime = 1500, video = videoEnv0,
       updaterTiming = AtNextRender\<rparr>"

definition decoded0 :: "string \<Rightarrow> string" where
  "decoded0 b = (if b = ''aGk='' then ''hi'' else ''yo'')"

definition envBothSucceed :: env where
  "envBothSucceed =
     \<lparr>generateContent = (\<lambda>i. Responds [InlineData (Some (if i = 0 then ''aGk='' else ''eW8=''))]),
       atob = (\<lambda>b. Inr (decoded0 b)), createObjectURL = (\<lambda>i b. ''blob:'' @ string_of_nat i),
       hasSelectedApiKey = True, startTime = 0, endTime = 1500, video = videoEnv0,
       updaterTiming = AtNextRender\<rparr>"

definition envBothSucceedAtCall :: env where
  "envBothSucceedAtCall = envBothSucceed\<lparr>updaterTiming := AtCall\<rparr>"

definition videoBlob0 :: blob where
  "videoBlob0 = \<lparr>blob_bytes = [0, 1, 2], blob_type = ''video/mp4''\<rparr>"

definition opPending :: operation where
  "opPending = \<lparr>op_done = False, op_uri = None\<rparr>"

definition opDoneWithLink :: operation where
  "opDoneWithLink = \<lparr>op_done = True, op_uri = Some ''https://video.example/v1?alt=media''\<rparr>"

definition opDoneNoLink :: operation where
  "opDoneNoLink = \<lparr>op_done = True, op_uri = None\<rparr>"

definition videoEnvTwoPolls :: video_env where
  "videoEnvTwoPolls =
     \<lparr>API_KEY = ''KEY'', generateVideos = Inr opPending,
       getVideosOperation = (\<lambda>j. if j = 0 then Inr opPending else Inr opDoneWithLink),
       fetch = (\<lambda>u. FetchResponse True ''OK'' videoBlob0),
       videoObjectURL = (\<lambda>b. ''blob:video'')\<rparr>"

definition videoEnvNoLink :: video_env where
  "videoEnvNoLink = videoEnvTwoPolls\<lparr>getVideosOperation := (\<lambda>j. Inr opDoneNoLink)\<rparr>"

definition videoEnvForbidden :: video_env where
  "videoEnvForbidden = videoEnvTwoPolls\<lparr>fetch := (\<lambda>u. FetchResponse False ''Forbidden'' videoBlob0)\<rparr>"

definition stateVideo :: app_state where
  "stateVideo = state0\<lparr>mode := Video, isApiKeySelected := True\<rparr>"

definition envNoKey :: env where
  "envNoKey = envSecondFails"

definition envKeyRejected :: env where
  "envKeyRejected = envSecondFails\<lparr>hasSelectedApiKey := True\<rparr>"

definition fileA :: File where
  "fileA = \<lparr>file_name = ''a.png'', file_type = ''image/png''\<rparr>"

definition fileB :: File where
  "fileB = \<lparr>file_name = ''my.shirt.jpg'', file_type = ''image/jpeg''\<rparr>"

definition uploadEnv0 :: upload_env where
  "uploadEnv0 =
     \<lparr>Date_now = (\<lambda>i. 1000 + 5000 * i), fileObjectURL = (\<lambda>i. ''blob:f'' @ string_of_nat i),
       reader = (\<lambda>i. ReaderResult (Some ''data:image/png;base64,QUJD'')),
       classifyContent = (\<lambda>i. if i = 0 then ClassifyThrows (Error ''429 quota exceeded'')
                                else ClassifyCategory (Some ''tops''))\<rparr>"

definition envFirstEmpty :: env where
  "envFirstEmpty =
     envBothSucceed\<lparr>generateContent :=
        (\<lambda>i. if i = 0 then Responds [InlineData None] else Responds [InlineData (Some ''eW8='')])\<rparr>"

definition videoEnvPollThrows :: video_env where
  "videoEnvPollThrows =
     videoEnvTwoPolls\<lparr>getVideosOperation :=
        (\<lambda>j. if j = 0 then Inr opPending else Inl (Error ''503 Service Unavailable''))\<rparr>"

section \<open>Facts about strings\<close>

lemma str_includes_iff_sublist: "str_includes s pat \<longleftrightarrow> sublist pat s"
  by (induction s) (auto simp: sublist_Cons_right)

lemma toLowerCase_append: "toLowerCase (a @ b) = toLowerCase a @ toLowerCase b"
  by (simp add: toLowerCase_def)

lemma str_includes_middle: "str_includes (a @ p @ b) p"
  by (simp add: str_includes_iff_sublist)

text \<open>Evaluating character codes and \<open>toLowerCase\<close> on literals.\<close>

lemmas char_eval = char_of_def bit_Suc_0_iff string_of_nat.simps

lemmas lower_eval = toLowerCase_def toLowerCase_char_def char_eval

section \<open>CombinationEngine: lemmas\<close>

lemma cartesian_two_nonempty:
  "xs \<noteq> [] \<Longrightarrow> ys \<noteq> [] \<Longrightarrow> cartesian [xs, ys] = concat (map (\<lambda>x. map (\<lambda>y. [x, y]) ys) xs)"
  by (simp add: cartesian_def comp_def)

lemma cartesian_left_only: "xs \<noteq> [] \<Longrightarrow> cartesian [xs, []] = map (\<lambda>x. [x]) xs"
  by (simp add: cartesian_def)

lemma cartesian_right_only: "ys \<noteq> [] \<Longrightarrow> cartesian [[], ys] = map (\<lambda>y. [y]) ys"
  by (simp add: cartesian_def)

lemma foldl_product_nonempty:
  "acc \<noteq> [] \<Longrightarrow> list_all (\<lambda>a. a \<noteq> []) arrs \<Longrightarrow>
   foldl (\<lambda>acc val. concat (map (\<lambda>d. map (\<lambda>e. d @ [e]) val) acc)) acc arrs \<noteq> []"
proof (induction arrs arbitrary: acc)
  case Nil
  then show ?case by simp
next
  case (Cons a arrs)
  from Cons.prems have "a \<noteq> []" by simp
  with Cons.prems(1) have "concat (map (\<lambda>d. map (\<lambda>e. d @ [e]) a) acc) \<noteq> []"
    by (cases acc; cases a) auto
  with Cons show ?case by simp
qed

lemma cartesian_nonempty: "cartesian arrays \<noteq> []"
  unfolding cartesian_def Let_def
  by (simp add: foldl_product_nonempty list_all_iff)

lemma foldl_product_items:
  "combo \<in> set (foldl (\<lambda>acc val. concat (map (\<lambda>d. map (\<lambda>e. d @ [e]) val) acc)) acc arrs) \<Longrightarrow>
   x \<in> set combo \<Longrightarrow> (\<exists>d \<in> set acc. x \<in> set d) \<or> (\<exists>a \<in> set arrs. x \<in> set a)"
proof (induction arrs arbitrary: acc)
  case Nil
  then show ?case by auto
next
  case (Cons a arrs)
  from Cons.IH [of "concat (map (\<lambda>d. map (\<lambda>e. d @ [e]) a) acc)"] Cons.prems
  show ?case by fastforce
qed

lemma cartesian_items:
  "combo \<in> set (cartesian arrays) \<Longrightarrow> x \<in> set combo \<Longrightarrow> \<exists>a \<in> set arrays. x \<in> set a"
  unfolding cartesian_def Let_def
  by (auto split: if_splits dest!: foldl_product_items)

lemma accessoryCombos_category:
  "combo \<in> set (accessoryCombos sel) \<Longrightarrow> x \<in> set combo \<Longrightarrow>
   category x \<in> {''footwear'', ''headwear'', ''accessories''}"
  unfolding accessoryCombos_def
  by (drule (1) cartesian_items) (auto simp: toTryOnItem_def)

lemma append_singleton_fun: "(@) [x] = (#) x"
  by (rule ext) simp

text \<open>
  The base layer is never empty: without outfits it is what \<open>cartesian\<close> returns, and
  \<open>cartesian\<close> never returns the empty list. So the engine returns at least one
  combination for every selection, the empty combination when nothing is selected.
\<close>

lemma baseItems_nonempty: "baseItems sel \<noteq> []"
  by (simp add: baseItems_def cartesian_nonempty)

lemma generateOutfitCombinations_nonempty: "generateOutfitCombinations sel \<noteq> []"
proof -
  obtain b bs where b: "baseItems sel = b # bs"
    using baseItems_nonempty [of sel] by (cases "baseItems sel") auto
  obtain c cs where c: "accessoryCombos sel = c # cs"
    using cartesian_nonempty by (cases "accessoryCombos sel") (auto simp: accessoryCombos_def)
  show ?thesis by (simp add: generateOutfitCombinations_def b c)
qed

lemma nothing_selected:
  "generateOutfitCombinations
     \<lparr>outfits = [], tops = [], bottoms = [], footwear = [], headwear = [], accessories = []\<rparr> = [[]]"
  by (simp add: generateOutfitCombinations_def baseItems_def accessoryCombos_def cartesian_def)

section \<open>CombinationEngine: the claims\<close>

text \<open>
  Claim C2, as amended. For every selection whose \<open>outfits\<close> is empty: when \<open>tops\<close>
  and \<open>bottoms\<close> are both non-empty, the base candidates are the pairs of
  \<open>tops \<times> bottoms\<close> in top-major order, every item tagged with its category; when
  exactly one of the two is empty, \<open>cartesian\<close> skips it and the base candidates are
  the singletons of the other, in selection order; and with \<open>tops = [A, B]\<close>,
  \<open>bottoms = [C]\<close> and every other category empty the engine returns exactly
  \<open>[[A, C], [B, C]]\<close>.
\<close>

theorem base_layer_without_outfits:
  assumes "outfits sel = []"
  shows "(tops sel \<noteq> [] \<and> bottoms sel \<noteq> [] \<longrightarrow>
            baseItems sel = concat (map (\<lambda>t. map (\<lambda>b. [toTryOnItem t ''tops'', toTryOnItem b ''bottoms''])
                                              (bottoms sel)) (tops sel)))
       \<and> (tops sel \<noteq> [] \<and> bottoms sel = [] \<longrightarrow>
            baseItems sel = map (\<lambda>t. [toTryOnItem t ''tops'']) (tops sel))
       \<and> (tops sel = [] \<and> bottoms sel \<noteq> [] \<longrightarrow>
            baseItems sel = map (\<lambda>b. [toTryOnItem b ''bottoms'']) (bottoms sel))
       \<and> (tops sel = [A, B] \<and> bottoms sel = [C] \<and> footwear sel = [] \<and> headwear sel = []
            \<and> accessories sel = [] \<longrightarrow>
            generateOutfitCombinations sel =
              [[toTryOnItem A ''tops'', toTryOnItem C ''bottoms''],
               [toTryOnItem B ''tops'', toTryOnItem C ''bottoms'']])"
proof -
  have both: "tops sel \<noteq> [] \<Longrightarrow> bottoms sel \<noteq> [] \<Longrightarrow>
      baseItems sel = concat (map (\<lambda>t. map (\<lambda>b. [toTryOnItem t ''tops'', toTryOnItem b ''bottoms''])
                                              (bottoms sel)) (tops sel))"
    using assms by (simp add: baseItems_def cartesian_two_nonempty comp_def map_concat)
  have left: "tops sel \<noteq> [] \<Longrightarrow> bottoms sel = [] \<Longrightarrow>
      baseItems sel = map (\<lambda>t. [toTryOnItem t ''tops'']) (tops sel)"
    using assms by (simp add: baseItems_def cartesian_left_only comp_def)
  have right: "tops sel = [] \<Longrightarrow> bottoms sel \<noteq> [] \<Longrightarrow>
      baseItems sel = map (\<lambda>b. [toTryOnItem b ''bottoms'']) (bottoms sel)"
    using assms by (simp add: baseItems_def cartesian_right_only comp_def)
  have ex: "tops sel = [A, B] \<Longrightarrow> bottoms sel = [C] \<Longrightarrow> footwear sel = [] \<Longrightarrow> headwear sel = []
      \<Longrightarrow> accessories sel = [] \<Longrightarrow>
      generateOutfitCombinations sel =
              [[toTryOnItem A ''tops'', toTryOnItem C ''bottoms''],
               [toTryOnItem B ''tops'', toTryOnItem C ''bottoms'']]"
    using assms
    by (simp add: generateOutfitCombinations_def baseItems_def accessoryCombos_def cartesian_def)
  from both left right ex show ?thesis by blast
qed

theorem base_layer_without_outfits_witness:
  "baseItems \<lparr>outfits = [], tops = [itemA, itemB], bottoms = [itemC], footwear = [], headwear = [],
              accessories = []\<rparr>
     = [[toTryOnItem itemA ''tops'', toTryOnItem itemC ''bottoms''],
        [toTryOnItem itemB ''tops'', toTryOnItem itemC ''bottoms'']]
   \<and> generateOutfitCombinations \<lparr>outfits = [], tops = [itemA, itemB], bottoms = [itemC],
              footwear = [], headwear = [], accessories = []\<rparr>
     = [[toTryOnItem itemA ''tops'', toTryOnItem itemC ''bottoms''],
        [toTryOnItem itemB ''tops'', toTryOnItem itemC ''bottoms'']]
   \<and> baseItems \<lparr>outfits = [], tops = [itemA, itemB], bottoms = [], footwear = [], headwear = [],
              accessories = []\<rparr>
     = [[toTryOnItem itemA ''tops''], [toTryOnItem itemB ''tops'']]
   \<and> baseItems \<lparr>outfits = [], tops = [], bottoms = [itemC], footwear = [], headwear = [],
              accessories = []\<rparr>
     = [[toTryOnItem itemC ''bottoms'']]"
  using base_layer_without_outfits [of "\<lparr>outfits = [], tops = [itemA, itemB], bottoms = [itemC],
              footwear = [], headwear = [], accessories = []\<rparr>" itemA itemB itemC]
    base_layer_without_outfits [of "\<lparr>outfits = [], tops = [itemA, itemB], bottoms = [],
              footwear = [], headwear = [], accessories = []\<rparr>"]
    base_layer_without_outfits [of "\<lparr>outfits = [], tops = [], bottoms = [itemC],
              footwear = [], headwear = [], accessories = []\<rparr>"]
  by simp

text \<open>
  Claim C2 as it was stated says that an empty \<open>tops\<close> or \<open>bottoms\<close> leaves no base
  candidate. With one top and no bottom the base layer is that top alone.
\<close>

theorem base_layer_one_side_empty_counterexample:
  "outfits \<lparr>outfits = [], tops = [itemA], bottoms = [], footwear = [], headwear = [],
            accessories = []\<rparr> = []
   \<and> bottoms \<lparr>outfits = [], tops = [itemA], bottoms = [], footwear = [], headwear = [],
            accessories = []\<rparr> = []
   \<and> baseItems \<lparr>outfits = [], tops = [itemA], bottoms = [], footwear = [], headwear = [],
            accessories = []\<rparr> = [[toTryOnItem itemA ''tops'']]
   \<and> baseItems \<lparr>outfits = [], tops = [itemA], bottoms = [], footwear = [], headwear = [],
            accessories = []\<rparr> \<noteq> []"
  by (simp add: baseItems_def cartesian_def)

text \<open>
  Claim C3. For every selection whose \<open>outfits\<close> is non-empty: the result is, outfit by
  outfit in selection order, the outfit item followed by each accessory combination
  (there is at least one); so the base layers follow the outfits selection order; every
  combination is one outfit item followed by items tagged \<open>footwear\<close>,
  \<open>headwear\<close> or \<open>accessories\<close>, and holds no item tagged \<open>tops\<close> or
  \<open>bottoms\<close>; and the result does not change with what \<open>tops\<close> and \<open>bottoms\<close>
  hold.
\<close>

theorem outfits_exclusive:
  assumes "outfits sel \<noteq> []"
  shows "generateOutfitCombinations sel =
           concat (map (\<lambda>item. map (\<lambda>combo. toTryOnItem item ''outfits'' # combo) (accessoryCombos sel))
                       (outfits sel))
       \<and> accessoryCombos sel \<noteq> []
       \<and> map hd (generateOutfitCombinations sel) =
           concat (map (\<lambda>item. replicate (length (accessoryCombos sel)) (toTryOnItem item ''outfits''))
                       (outfits sel))
       \<and> (\<forall>combo \<in> set (generateOutfitCombinations sel).
             \<exists>item \<in> set (outfits sel). \<exists>acc \<in> set (accessoryCombos sel).
               combo = toTryOnItem item ''outfits'' # acc
               \<and> (\<forall>x \<in> set acc. category x \<in> {''footwear'', ''headwear'', ''accessories''})
               \<and> (\<forall>x \<in> set combo. category x \<noteq> ''tops'' \<and> category x \<noteq> ''bottoms''))
       \<and> generateOutfitCombinations (sel\<lparr>tops := t, bottoms := b\<rparr>) = generateOutfitCombinations sel"
proof -
  have base: "baseItems sel = map (\<lambda>item. [toTryOnItem item ''outfits'']) (outfits sel)"
    using assms by (simp add: baseItems_def)
  have gen: "generateOutfitCombinations sel =
           concat (map (\<lambda>item. map (\<lambda>combo. toTryOnItem item ''outfits'' # combo) (accessoryCombos sel))
                       (outfits sel))"
    using assms by (simp add: generateOutfitCombinations_def base comp_def append_singleton_fun)
  have ne: "accessoryCombos sel \<noteq> []"
    by (simp add: accessoryCombos_def cartesian_nonempty)
  have heads: "map hd (generateOutfitCombinations sel) =
           concat (map (\<lambda>item. replicate (length (accessoryCombos sel)) (toTryOnItem item ''outfits''))
                       (outfits sel))"
    unfolding gen by (simp add: map_concat comp_def map_replicate_const)
  have items: "\<forall>combo \<in> set (generateOutfitCombinations sel).
             \<exists>item \<in> set (outfits sel). \<exists>acc \<in> set (accessoryCombos sel).
               combo = toTryOnItem item ''outfits'' # acc
               \<and> (\<forall>x \<in> set acc. category x \<in> {''footwear'', ''headwear'', ''accessories''})
               \<and> (\<forall>x \<in> set combo. category x \<noteq> ''tops'' \<and> category x \<noteq> ''bottoms'')"
  proof
    fix combo assume "combo \<in> set (generateOutfitCombinations sel)"
    then obtain item acc where ia: "item \<in> set (outfits sel)" "acc \<in> set (accessoryCombos sel)"
      "combo = toTryOnItem item ''outfits'' # acc"
      unfolding gen by auto
    have cats: "\<forall>x \<in> set acc. category x \<in> {''footwear'', ''headwear'', ''accessories''}"
      using ia(2) accessoryCombos_category by blast
    have "category (toTryOnItem item ''outfits'') = ''outfits''"
      by (simp add: toTryOnItem_def)
    with cats ia(3) have "\<forall>x \<in> set combo. category x \<noteq> ''tops'' \<and> category x \<noteq> ''bottoms''"
      by auto
    with ia cats show "\<exists>item \<in> set (outfits sel). \<exists>acc \<in> set (accessoryCombos sel).
               combo = toTryOnItem item ''outfits'' # acc
               \<and> (\<forall>x \<in> set acc. category x \<in> {''footwear'', ''headwear'', ''accessories''})
               \<and> (\<forall>x \<in> set combo. category x \<noteq> ''tops'' \<and> category x \<noteq> ''bottoms'')"
      by blast
  qed
  have indep: "generateOutfitCombinations (sel\<lparr>tops := t, bottoms := b\<rparr>) = generateOutfitCombinations sel"
    using assms by (simp add: generateOutfitCombinations_def baseItems_def accessoryCombos_def)
  from gen ne heads items indep show ?thesis by blast
qed

theorem outfits_exclusive_witness:
  "outfits selOutfits \<noteq> []
   \<and> generateOutfitCombinations selOutfits =
       [[toTryOnItem itemA ''outfits'', toTryOnItem itemC ''footwear''],
        [toTryOnItem itemB ''outfits'', toTryOnItem itemC ''footwear'']]
   \<and> map hd (generateOutfitCombinations selOutfits) =
       [toTryOnItem itemA ''outfits'', toTryOnItem itemB ''outfits'']
   \<and> generateOutfitCombinations (selOutfits\<lparr>tops := [], bottoms := [itemA, itemB]\<rparr>) =
       generateOutfitCombinations selOutfits"
proof -
  have ne: "outfits selOutfits \<noteq> []" by (simp add: selOutfits_def)
  have acc: "accessoryCombos selOutfits = [[toTryOnItem itemC ''footwear'']]"
    by (simp add: selOutfits_def accessoryCombos_def cartesian_def)
  have out: "outfits selOutfits = [itemA, itemB]"
    by (simp add: selOutfits_def)
  from outfits_exclusive [OF ne, where t = "[]" and b = "[itemA, itemB]"] ne show ?thesis
    by (simp add: acc out)
qed

section \<open>ErrorNormalizer: the claims\<close>

text \<open>
  Claim C4, as amended. \<open>parseGeminiError\<close> is the ordered, case-insensitive,
  first-match scan over the fixed rule list (the unknown-error message when no rule
  matches or when the thrown value is not an \<open>Error\<close>). In particular a message that
  contains "quota" and matches neither of the two earlier rules normalizes to the
  quota message, also when it contains "503"; and a message that contains "requested
  entity was not found" in any letter case and does not match the first rule
  normalizes to the credential message, which is not the unknown-error message.
\<close>

theorem parseGeminiError_first_match:
  "parseGeminiError (Error m) = first_match_scan normalizer_rules m
   \<and> parseGeminiError NonError = UNKNOWN_MSG
   \<and> (str_includes (toLowerCase m) ''quota''
        \<and> \<not> str_includes (toLowerCase m) ''api key not valid''
        \<and> \<not> str_includes (toLowerCase m) ''requested entity was not found''
        \<longrightarrow> parseGeminiError (Error m) = QUOTA_MSG)
   \<and> (toLowerCase v = ''requested entity was not found''
        \<and> \<not> str_includes (toLowerCase (pre @ v @ post)) ''api key not valid''
        \<longrightarrow> parseGeminiError (Error (pre @ v @ post)) = CREDENTIAL_MSG)
   \<and> CREDENTIAL_MSG \<noteq> UNKNOWN_MSG \<and> QUOTA_MSG \<noteq> UNAVAILABLE_MSG"
proof -
  have scan: "parseGeminiError (Error m) = first_match_scan normalizer_rules m"
    by (simp add: parseGeminiError_def first_match_scan_def normalizer_rules_def Let_def)
  have non: "parseGeminiError NonError = UNKNOWN_MSG"
    by (simp add: parseGeminiError_def)
  have quota: "str_includes (toLowerCase m) ''quota''
        \<and> \<not> str_includes (toLowerCase m) ''api key not valid''
        \<and> \<not> str_includes (toLowerCase m) ''requested entity was not found''
        \<longrightarrow> parseGeminiError (Error m) = QUOTA_MSG"
    by (simp add: parseGeminiError_def Let_def)
  have cred: "toLowerCase v = ''requested entity was not found''
        \<and> \<not> str_includes (toLowerCase (pre @ v @ post)) ''api key not valid''
        \<longrightarrow> parseGeminiError (Error (pre @ v @ post)) = CREDENTIAL_MSG"
  proof
    assume h: "toLowerCase v = ''requested entity was not found''
        \<and> \<not> str_includes (toLowerCase (pre @ v @ post)) ''api key not valid''"
    then have "toLowerCase (pre @ v @ post)
                 = toLowerCase pre @ ''requested entity was not found'' @ toLowerCase post"
      by (simp add: toLowerCase_append)
    then have "str_includes (toLowerCase (pre @ v @ post)) ''requested entity was not found''"
      by (simp only: str_includes_middle)
    with h show "parseGeminiError (Error (pre @ v @ post)) = CREDENTIAL_MSG"
      by (simp add: parseGeminiError_def Let_def)
  qed
  have ne: "CREDENTIAL_MSG \<noteq> UNKNOWN_MSG \<and> QUOTA_MSG \<noteq> UNAVAILABLE_MSG"
    by (simp add: CREDENTIAL_MSG_def UNKNOWN_MSG_def QUOTA_MSG_def UNAVAILABLE_MSG_def)
  from scan non quota cred ne show ?thesis by blast
qed

theorem parseGeminiError_first_match_witness:
  "parseGeminiError (Error ''Quota exceeded (503)'') = QUOTA_MSG
   \<and> parseGeminiError (Error ''Error: REQUESTED Entity was not found.'') = CREDENTIAL_MSG"
proof -
  note T = parseGeminiError_first_match [where m = "''Quota exceeded (503)''"
      and v = "''REQUESTED Entity was not found''" and pre = "''Error: ''" and post = "''.''"]
  have q: "str_includes (toLowerCase ''Quota exceeded (503)'') ''quota''
        \<and> \<not> str_includes (toLowerCase ''Quota exceeded (503)'') ''api key not valid''
        \<and> \<not> str_includes (toLowerCase ''Quota exceeded (503)'') ''requested entity was not found''"
    by (simp add: lower_eval)
  have c: "toLowerCase ''REQUESTED Entity was not found'' = ''requested entity was not found''
        \<and> \<not> str_includes (toLowerCase (''Error: '' @ ''REQUESTED Entity was not found'' @ ''.''))
              ''api key not valid''"
    by (simp add: lower_eval)
  from T q have 1: "parseGeminiError (Error ''Quota exceeded (503)'') = QUOTA_MSG"
    by blast
  from T c have 2: "parseGeminiError (Error (''Error: '' @ ''REQUESTED Entity was not found'' @ ''.''))
      = CREDENTIAL_MSG"
    by blast
  from 1 2 show ?thesis by simp
qed

text \<open>
  Claim C4 as it was stated says that every message containing both "quota" and "503"
  normalizes to the quota message. A message that also matches the first rule
  normalizes to the configuration message.
\<close>

theorem quota_and_503_counterexample:
  "str_includes ''API key not valid: quota project 503'' ''quota''
   \<and> str_includes ''API key not valid: quota project 503'' ''503''
   \<and> parseGeminiError (Error ''API key not valid: quota project 503'') = CONFIGURATION_MSG
   \<and> parseGeminiError (Error ''API key not valid: quota project 503'') \<noteq> QUOTA_MSG"
  by (simp add: parseGeminiError_def lower_eval CONFIGURATION_MSG_def QUOTA_MSG_def)

section \<open>Service calls: the claims\<close>

text \<open>
  A response without an inline image part makes \<open>virtualTryOn\<close> and \<open>editImage\<close>
  fail. The \<open>Error\<close> that names the missing image is thrown inside the \<open>try\<close>
  block, so the \<open>catch\<close> block normalizes it: no rule matches its text.
\<close>

lemma no_image_part_fails:
  "firstInlineData parts = None \<Longrightarrow>
   virtualTryOn (Responds parts) = Inl (Error UNKNOWN_MSG)
   \<and> editImage (Responds parts) = Inl (Error UNKNOWN_MSG)"
  by (simp add: virtualTryOn_def virtualTryOn_try_def editImage_def editImage_try_def
      parseGeminiError_def lower_eval NO_IMAGE_TRYON_MSG_def NO_IMAGE_EDIT_MSG_def)

text \<open>
  Claim C5 says that the failure surfaced for a response without an image part is the
  "model did not return an image" error. At a response with no part (and at one with a
  text part only) the call throws the unknown-error message instead.
\<close>

theorem no_image_message_is_normalized_away:
  "virtualTryOn (Responds []) = Inl (Error UNKNOWN_MSG)
   \<and> editImage (Responds [OtherPart]) = Inl (Error UNKNOWN_MSG)
   \<and> UNKNOWN_MSG \<noteq> NO_IMAGE_TRYON_MSG \<and> UNKNOWN_MSG \<noteq> NO_IMAGE_EDIT_MSG"
  by (simp add: virtualTryOn_def virtualTryOn_try_def editImage_def editImage_try_def
      parseGeminiError_def lower_eval NO_IMAGE_TRYON_MSG_def NO_IMAGE_EDIT_MSG_def UNKNOWN_MSG_def)

section \<open>GenerationOrchestrator: the render loop\<close>

lemma tryOnLoop_throws:
  "length images = j \<Longrightarrow> j < length combos \<Longrightarrow>
   (\<forall>i < j. virtualTryOn (gc (i0 + i)) = Inr (Some (images ! i)) \<and> images ! i \<noteq> []) \<Longrightarrow>
   virtualTryOn (gc (i0 + j)) = Inl e \<Longrightarrow>
   tryOnLoop gc i0 combos results tr =
     (Some e, results @ images, tr @ map EvVirtualTryOn (take (Suc j) combos))"
proof (induction combos arbitrary: i0 images j results tr)
  case Nil
  then show ?case by simp
next
  case (Cons c cs)
  show ?case
  proof (cases j)
    case 0
    with Cons.prems show ?thesis by simp
  next
    case (Suc j')
    with Cons.prems(1) obtain x xs where im: "images = x # xs" "length xs = j'"
      by (cases images) auto
    from Cons.prems(3) Suc im have first: "virtualTryOn (gc i0) = Inr (Some x)" "x \<noteq> []"
      by force+
    have rest: "\<forall>i < j'. virtualTryOn (gc (Suc i0 + i)) = Inr (Some (xs ! i)) \<and> xs ! i \<noteq> []"
    proof (intro allI impI)
      fix i assume "i < j'"
      with Cons.prems(3) [rule_format, of "Suc i"] Suc im
      show "virtualTryOn (gc (Suc i0 + i)) = Inr (Some (xs ! i)) \<and> xs ! i \<noteq> []"
        by simp
    qed
    from Cons.prems(4) Suc have last: "virtualTryOn (gc (Suc i0 + j')) = Inl e"
      by simp
    from Cons.prems(2) Suc have "j' < length cs" by simp
    from Cons.IH [OF im(2) this rest last, of "results @ [x]" "tr @ [EvVirtualTryOn c]"]
    show ?thesis using first im Suc by (simp add: truthy_def)
  qed
qed

lemma tryOnLoop_returns:
  "length images = length combos \<Longrightarrow>
   (\<forall>i < length combos. virtualTryOn (gc (i0 + i)) = Inr (Some (images ! i)) \<and> images ! i \<noteq> []) \<Longrightarrow>
   tryOnLoop gc i0 combos results tr = (None, results @ images, tr @ map EvVirtualTryOn combos)"
proof (induction combos arbitrary: i0 images results tr)
  case Nil
  then show ?case by simp
next
  case (Cons c cs)
  from Cons.prems(1) obtain x xs where im: "images = x # xs" "length xs = length cs"
    by (cases images) auto
  from Cons.prems(2) im have first: "virtualTryOn (gc i0) = Inr (Some x)" "x \<noteq> []"
    by force+
  have rest: "\<forall>i < length cs. virtualTryOn (gc (Suc i0 + i)) = Inr (Some (xs ! i)) \<and> xs ! i \<noteq> []"
  proof (intro allI impI)
    fix i assume "i < length cs"
    with Cons.prems(2) [rule_format, of "Suc i"] im
    show "virtualTryOn (gc (Suc i0 + i)) = Inr (Some (xs ! i)) \<and> xs ! i \<noteq> []"
      by simp
  qed
  from Cons.IH [OF im(2) rest, of "results @ [x]" "tr @ [EvVirtualTryOn c]"]
  show ?case using first im by (simp add: truthy_def)
qed

text \<open>A call that returns no data, or empty data, adds nothing to the buffer (line 195).\<close>

lemma tryOnLoop_skips_falsy:
  "virtualTryOn (gc i) = Inr result \<Longrightarrow> \<not> truthy result \<Longrightarrow>
   tryOnLoop gc i (outfit # rest) results tr =
     tryOnLoop gc (Suc i) rest results (tr @ [EvVirtualTryOn outfit])"
  by simp

text \<open>The loop over calls that return anything, with or without data.\<close>

lemma producedImages_Cons:
  "producedImages (r # rs) =
     (if truthy r then [case r of Some d \<Rightarrow> d | None \<Rightarrow> []] else []) @ producedImages rs"
  by (simp add: producedImages_def)

lemma tryOnLoop_returns_any:
  "length returned = length combos \<Longrightarrow>
   (\<forall>i < length combos. virtualTryOn (gc (i0 + i)) = Inr (returned ! i)) \<Longrightarrow>
   tryOnLoop gc i0 combos results tr =
     (None, results @ producedImages returned, tr @ map EvVirtualTryOn combos)"
proof (induction combos arbitrary: i0 returned results tr)
  case Nil
  then show ?case by (simp add: producedImages_def)
next
  case (Cons c cs)
  from Cons.prems(1) obtain r rs where im: "returned = r # rs" "length rs = length cs"
    by (cases returned) auto
  from Cons.prems(2) [rule_format, of 0] im have first: "virtualTryOn (gc i0) = Inr r"
    by simp
  have rest: "\<forall>i < length cs. virtualTryOn (gc (Suc i0 + i)) = Inr (rs ! i)"
  proof (intro allI impI)
    fix i assume "i < length cs"
    with Cons.prems(2) [rule_format, of "Suc i"] im
    show "virtualTryOn (gc (Suc i0 + i)) = Inr (rs ! i)" by simp
  qed
  show ?case
    using Cons.IH [OF im(2) rest] first im by (simp add: producedImages_Cons)
qed

lemma tryOnLoop_throws_any:
  "length returned = j \<Longrightarrow> j < length combos \<Longrightarrow>
   (\<forall>i < j. virtualTryOn (gc (i0 + i)) = Inr (returned ! i)) \<Longrightarrow>
   virtualTryOn (gc (i0 + j)) = Inl e \<Longrightarrow>
   tryOnLoop gc i0 combos results tr =
     (Some e, results @ producedImages returned, tr @ map EvVirtualTryOn (take (Suc j) combos))"
proof (induction combos arbitrary: i0 returned j results tr)
  case Nil
  then show ?case by simp
next
  case (Cons c cs)
  show ?case
  proof (cases j)
    case 0
    with Cons.prems show ?thesis by (simp add: producedImages_def)
  next
    case (Suc j')
    with Cons.prems(1) obtain r rs where im: "returned = r # rs" "length rs = j'"
      by (cases returned) auto
    from Cons.prems(3) [rule_format, of 0] Suc im have first: "virtualTryOn (gc i0) = Inr r"
      by simp
    have rest: "\<forall>i < j'. virtualTryOn (gc (Suc i0 + i)) = Inr (rs ! i)"
    proof (intro allI impI)
      fix i assume "i < j'"
      with Cons.prems(3) [rule_format, of "Suc i"] Suc im
      show "virtualTryOn (gc (Suc i0 + i)) = Inr (rs ! i)" by simp
    qed
    from Cons.prems(4) Suc have last: "virtualTryOn (gc (Suc i0 + j')) = Inl e" by simp
    from Cons.prems(2) Suc have lt: "j' < length cs" by simp
    show ?thesis
      using Cons.IH [OF im(2) lt rest last] first im Suc by (simp add: producedImages_Cons)
  qed
qed

lemma virtualTryOn_of_try:
  "virtualTryOn_try response = Inl raw \<Longrightarrow> virtualTryOn response = Inl (Error (parseGeminiError raw))"
  by (simp add: virtualTryOn_def)

lemma tryOn_failure_state:
  assumes m: "mode s = TryOn" and sel: "selectedImage s = Some img"
    and combos: "generateOutfitCombinations (selectedItems s) = combos"
    and real: "\<not> list_ex (\<lambda>item. img_base64 (item_image item) = []) (concat combos)"
    and k: "0 < k" "k \<le> length combos"
    and len: "length images = k - 1"
    and ok: "\<forall>i < k - 1. virtualTryOn (generateContent env i) = Inr (Some (images ! i)) \<and> images ! i \<noteq> []"
    and thrown: "virtualTryOn (generateContent env (k - 1)) = Inl (Error msg)"
  shows "handleGenerate env s =
           Some (s\<lparr>isLoading := False, generatedImages := images, generatedVideoUrl := None,
                   error := Some msg, elapsedTime := Some ((endTime env - startTime env) / 1000)\<rparr>,
                 map EvVirtualTryOn (take k combos))"
proof -
  from k have lt: "k - 1 < length combos" and suc: "Suc (k - 1) = k" by auto
  have loop: "tryOnLoop (generateContent env) 0 combos [] [] =
                (Some (Error msg), images, map EvVirtualTryOn (take k combos))"
    using tryOnLoop_throws [OF len lt, of "generateContent env" 0 "Error msg" "[]" "[]"] ok thrown suc
    by simp
  from k have ne: "combos \<noteq> []" by auto
  show ?thesis
    using m sel combos real ne loop
    by (simp add: handleGenerate_def tryOnBranch_def finish_def Let_def)
qed

text \<open>
  Claim C1. In a try-on run that reaches the render loop (a photo is selected, there is
  a combination, no selected item is a placeholder): if the first \<open>k - 1\<close> calls of
  \<open>virtualTryOn\<close> return image data and the \<open>k\<close>-th throws, then the calls made
  are those for the first \<open>k\<close> combinations, in order, and no other; the generated
  images are the \<open>k - 1\<close> returned images in combination order; and the error shown
  is \<open>parseGeminiError\<close> of what the \<open>k\<close>-th call's \<open>try\<close> block threw.
\<close>

theorem tryOn_fail_fast:
  assumes m: "mode s = TryOn" and sel: "selectedImage s = Some img"
    and combos: "generateOutfitCombinations (selectedItems s) = combos"
    and real: "\<not> list_ex (\<lambda>item. img_base64 (item_image item) = []) (concat combos)"
    and k: "0 < k" "k \<le> length combos"
    and len: "length images = k - 1"
    and ok: "\<forall>i < k - 1. virtualTryOn (generateContent env i) = Inr (Some (images ! i)) \<and> images ! i \<noteq> []"
    and thrown: "virtualTryOn_try (generateContent env (k - 1)) = Inl raw"
  shows "\<exists>s'. handleGenerate env s = Some (s', map EvVirtualTryOn (take k combos))
           \<and> generatedImages s' = images \<and> length (generatedImages s') = k - 1
           \<and> error s' = Some (parseGeminiError raw) \<and> isLoading s' = False"
  using tryOn_failure_state [OF m sel combos real k len ok virtualTryOn_of_try [OF thrown]] len
  by simp

theorem tryOn_fail_fast_witness:
  "\<exists>s'. handleGenerate envSecondFails state0 =
           Some (s', [EvVirtualTryOn [toTryOnItem itemA ''tops'', toTryOnItem itemC ''bottoms''],
                      EvVirtualTryOn [toTryOnItem itemB ''tops'', toTryOnItem itemC ''bottoms'']])
      \<and> generatedImages s' = [''aGk='']
      \<and> error s' = Some UNAVAILABLE_MSG \<and> isLoading s' = False"
proof -
  have combos: "generateOutfitCombinations (selectedItems state0) =
      [[toTryOnItem itemA ''tops'', toTryOnItem itemC ''bottoms''],
       [toTryOnItem itemB ''tops'', toTryOnItem itemC ''bottoms'']]"
    by (simp add: state0_def selTopsBottoms_def generateOutfitCombinations_def baseItems_def
        accessoryCombos_def cartesian_def)
  have real: "\<not> list_ex (\<lambda>item. img_base64 (item_image item) = [])
      (concat [[toTryOnItem itemA ''tops'', toTryOnItem itemC ''bottoms''],
               [toTryOnItem itemB ''tops'', toTryOnItem itemC ''bottoms'']])"
    by (simp add: toTryOnItem_def itemA_def itemB_def itemC_def img0_def)
  have ok: "\<forall>i < 2 - 1. virtualTryOn (generateContent envSecondFails i) = Inr (Some ([''aGk=''] ! i))
      \<and> [''aGk=''] ! i \<noteq> []"
    by (simp add: envSecondFails_def virtualTryOn_def virtualTryOn_try_def)
  have thrown: "virtualTryOn_try (generateContent envSecondFails (2 - 1)) = Inl (Error ''503 Service Unavailable'')"
    by (simp add: envSecondFails_def virtualTryOn_try_def)
  have norm: "parseGeminiError (Error ''503 Service Unavailable'') = UNAVAILABLE_MSG"
    by (simp add: parseGeminiError_def lower_eval)
  have m: "mode state0 = TryOn" and sel: "selectedImage state0 = Some img0"
    by (simp_all add: state0_def)
  from tryOn_fail_fast [where k = 2 and images = "[''aGk='']", OF m sel combos real _ _ _ ok thrown]
  show ?thesis by (auto simp: norm)
qed

section \<open>GenerationOrchestrator: a batch that completes\<close>

lemma buildNewItems_decoded:
  "(\<forall>r \<in> set results. atob env r = Inr (decoded r)) \<Longrightarrow>
   buildNewItems env img i0 results =
     Inr (map (\<lambda>(i, r). newTryOnItem env img i r (decodedBlob (decoded r))) (enumerate i0 results))"
  by (induction results arbitrary: i0) (simp_all add: base64ToBlob_def decodedBlob_def)

lemma tryOnEntries_length: "length (tryOnEntries env img decoded images) = length images"
  by (simp add: tryOnEntries_def)

lemma tryOnEntries_nth:
  "i < length images \<Longrightarrow>
   tryOnEntries env img decoded images ! i =
     newTryOnItem env img i (images ! i) (decodedBlob (decoded (images ! i)))"
  by (simp add: tryOnEntries_def nth_enumerate_eq)

lemma materialize_eq:
  "newItems \<noteq> [] \<Longrightarrow>
   materialize timing newItems s =
     s\<lparr>workspaceItems := rev newItems @ workspaceItems s,
       selectedImage := Some (case timing of AtCall \<Rightarrow> last newItems | AtNextRender \<Rightarrow> hd newItems)\<rparr>"
  by (cases timing) (simp_all add: materialize_def workspaceUpdater_def Let_def hd_rev hd_conv_nth [symmetric])

lemma tryOn_success_state:
  assumes m: "mode s = TryOn" and sel: "selectedImage s = Some img"
    and combos: "generateOutfitCombinations (selectedItems s) = combos"
    and real: "\<not> list_ex (\<lambda>item. img_base64 (item_image item) = []) (concat combos)"
    and ne: "combos \<noteq> []"
    and len: "length images = length combos"
    and ok: "\<forall>i < length combos. virtualTryOn (generateContent env i) = Inr (Some (images ! i)) \<and> images ! i \<noteq> []"
    and dec: "\<forall>r \<in> set images. atob env r = Inr (decoded r)"
  shows "handleGenerate env s =
           Some (s\<lparr>isLoading := False, generatedImages := images, generatedVideoUrl := None,
                   error := None, elapsedTime := Some ((endTime env - startTime env) / 1000),
                   workspaceItems := rev (tryOnEntries env img decoded images) @ workspaceItems s,
                   selectedImage := Some (case updaterTiming env of
                                            AtCall \<Rightarrow> last (tryOnEntries env img decoded images)
                                          | AtNextRender \<Rightarrow> hd (tryOnEntries env img decoded images))\<rparr>,
                 map EvVirtualTryOn combos)"
proof -
  have loop: "tryOnLoop (generateContent env) 0 combos [] [] = (None, images, map EvVirtualTryOn combos)"
    using tryOnLoop_returns [OF len, of "generateContent env" 0 "[]" "[]"] ok by simp
  from ne len have ine: "images \<noteq> []" by auto
  then have ene: "tryOnEntries env img decoded images \<noteq> []"
    by (metis length_0_conv tryOnEntries_length)
  have build: "buildNewItems env img 0 images = Inr (tryOnEntries env img decoded images)"
    using buildNewItems_decoded [OF dec] by (simp add: tryOnEntries_def)
  show ?thesis
    using m sel combos real ne loop ine build
    by (simp add: handleGenerate_def tryOnBranch_def finish_def Let_def materialize_eq [OF ene])
qed

lemma state0_combos:
  "generateOutfitCombinations (selectedItems state0) =
      [[toTryOnItem itemA ''tops'', toTryOnItem itemC ''bottoms''],
       [toTryOnItem itemB ''tops'', toTryOnItem itemC ''bottoms'']]"
  by (simp add: state0_def selTopsBottoms_def generateOutfitCombinations_def baseItems_def
      accessoryCombos_def cartesian_def)

lemma state0_real:
  "\<not> list_ex (\<lambda>item. img_base64 (item_image item) = [])
      (concat [[toTryOnItem itemA ''tops'', toTryOnItem itemC ''bottoms''],
               [toTryOnItem itemB ''tops'', toTryOnItem itemC ''bottoms'']])"
  by (simp add: toTryOnItem_def itemA_def itemB_def itemC_def img0_def)

text \<open>A run of the loop that ends without a throw, and one that a throw ends.\<close>

lemma tryOn_completed_state:
  assumes m: "mode s = TryOn" and sel: "selectedImage s = Some img"
    and combos: "generateOutfitCombinations (selectedItems s) = combos"
    and real: "\<not> list_ex (\<lambda>item. img_base64 (item_image item) = []) (concat combos)"
    and len: "length returned = length combos"
    and ok: "\<forall>i < length combos. virtualTryOn (generateContent env i) = Inr (returned ! i)"
    and dec: "\<forall>r \<in> set (producedImages returned). atob env r = Inr (decoded r)"
  shows "\<exists>s'. handleGenerate env s = Some (s', map EvVirtualTryOn combos)
           \<and> error s' = None \<and> generatedImages s' = producedImages returned
           \<and> workspaceItems s' =
               rev (tryOnEntries env img decoded (producedImages returned)) @ workspaceItems s"
proof -
  let ?images = "producedImages returned"
  have loop: "tryOnLoop (generateContent env) 0 combos [] [] = (None, ?images, map EvVirtualTryOn combos)"
    using tryOnLoop_returns_any [OF len, of "generateContent env" 0 "[]" "[]"] ok by simp
  from combos have ne: "combos \<noteq> []"
    using generateOutfitCombinations_nonempty [of "selectedItems s"] by simp
  show ?thesis
  proof (cases "?images = []")
    case True
    then show ?thesis
      using m sel combos real ne loop
      by (simp add: handleGenerate_def tryOnBranch_def finish_def Let_def tryOnEntries_def)
  next
    case False
    then have ene: "tryOnEntries env img decoded ?images \<noteq> []"
      by (metis length_0_conv tryOnEntries_length)
    have build: "buildNewItems env img 0 ?images = Inr (tryOnEntries env img decoded ?images)"
      using buildNewItems_decoded [OF dec] by (simp add: tryOnEntries_def)
    show ?thesis
      using m sel combos real ne loop False build
      by (simp add: handleGenerate_def tryOnBranch_def finish_def Let_def materialize_eq [OF ene])
  qed
qed

lemma tryOn_interrupted_state:
  assumes m: "mode s = TryOn" and sel: "selectedImage s = Some img"
    and combos: "generateOutfitCombinations (selectedItems s) = combos"
    and real: "\<not> list_ex (\<lambda>item. img_base64 (item_image item) = []) (concat combos)"
    and k: "0 < k" "k \<le> length combos"
    and len: "length returned = k - 1"
    and ok: "\<forall>i < k - 1. virtualTryOn (generateContent env i) = Inr (returned ! i)"
    and thrown: "virtualTryOn_try (generateContent env (k - 1)) = Inl raw"
  shows "\<exists>s'. handleGenerate env s = Some (s', map EvVirtualTryOn (take k combos))
           \<and> error s' = Some (parseGeminiError raw) \<and> generatedImages s' = producedImages returned
           \<and> workspaceItems s' = workspaceItems s \<and> selectedImage s' = selectedImage s"
proof -
  from k have lt: "k - 1 < length combos" and suc: "Suc (k - 1) = k" by auto
  have loop: "tryOnLoop (generateContent env) 0 combos [] [] =
                (Some (Error (parseGeminiError raw)), producedImages returned,
                 map EvVirtualTryOn (take k combos))"
    using tryOnLoop_throws_any [OF len lt, of "generateContent env" 0 "Error (parseGeminiError raw)" "[]" "[]"]
      ok virtualTryOn_of_try [OF thrown] suc
    by simp
  from k have ne: "combos \<noteq> []" by auto
  show ?thesis
    using m sel combos real ne loop
    by (simp add: handleGenerate_def tryOnBranch_def finish_def Let_def)
qed

text \<open>
  Claim C6, as amended. In a try-on run that reaches the render loop: when no render
  throws and every image produced decodes, each image produced (the non-empty data that
  a render returned) becomes a new workspace entry; the entries are built in the order of
  the renders (the \<open>i\<close>-th entry holds the \<open>i\<close>-th image produced, the URL of its
  decoded blob and the name \<open>try-on-i-\<close> followed by the photo's name) and, the
  updater of line 214 being run once, they are put in front of the workspace list in
  reverse order. When a render throws, the images produced before it stay in the
  generated-images buffer beside the error, and the workspace list and the selected
  photo are left as they were.
\<close>

theorem tryOn_materialization:
  assumes m: "mode s = TryOn" and sel: "selectedImage s = Some img"
    and combos: "generateOutfitCombinations (selectedItems s) = combos"
    and real: "\<not> list_ex (\<lambda>item. img_base64 (item_image item) = []) (concat combos)"
  shows "(length returned = length combos
            \<and> (\<forall>i < length combos. virtualTryOn (generateContent env i) = Inr (returned ! i))
            \<and> (\<forall>r \<in> set (producedImages returned). atob env r = Inr (decoded r))
          \<longrightarrow> (\<exists>s'. handleGenerate env s = Some (s', map EvVirtualTryOn combos)
                \<and> error s' = None \<and> generatedImages s' = producedImages returned
                \<and> workspaceItems s' =
                    rev (tryOnEntries env img decoded (producedImages returned)) @ workspaceItems s
                \<and> length (tryOnEntries env img decoded (producedImages returned)) =
                    length (producedImages returned)
                \<and> (\<forall>i < length (producedImages returned).
                      tryOnEntries env img decoded (producedImages returned) ! i =
                        \<lparr>img_base64 = producedImages returned ! i, img_mimeType = ''image/png'',
                         img_url = createObjectURL env i (decodedBlob (decoded (producedImages returned ! i))),
                         img_name = ''try-on-'' @ string_of_nat (i + 1) @ ''-'' @ img_name img\<rparr>)))
       \<and> (0 < k \<and> k \<le> length combos \<and> length earlier = k - 1
            \<and> (\<forall>i < k - 1. virtualTryOn (generateContent env i) = Inr (earlier ! i))
            \<and> virtualTryOn_try (generateContent env (k - 1)) = Inl raw
          \<longrightarrow> (\<exists>s'. handleGenerate env s = Some (s', map EvVirtualTryOn (take k combos))
                \<and> error s' = Some (parseGeminiError raw) \<and> generatedImages s' = producedImages earlier
                \<and> workspaceItems s' = workspaceItems s \<and> selectedImage s' = selectedImage s))"
proof (intro conjI impI)
  assume h: "length returned = length combos
            \<and> (\<forall>i < length combos. virtualTryOn (generateContent env i) = Inr (returned ! i))
            \<and> (\<forall>r \<in> set (producedImages returned). atob env r = Inr (decoded r))"
  then have len: "length returned = length combos"
    and ok: "\<forall>i < length combos. virtualTryOn (generateContent env i) = Inr (returned ! i)"
    and dec: "\<forall>r \<in> set (producedImages returned). atob env r = Inr (decoded r)"
    by blast+
  have nth: "\<forall>i < length (producedImages returned).
                      tryOnEntries env img decoded (producedImages returned) ! i =
                        \<lparr>img_base64 = producedImages returned ! i, img_mimeType = ''image/png'',
                         img_url = createObjectURL env i (decodedBlob (decoded (producedImages returned ! i))),
                         img_name = ''try-on-'' @ string_of_nat (i + 1) @ ''-'' @ img_name img\<rparr>"
    by (simp add: tryOnEntries_nth newTryOnItem_def)
  show "\<exists>s'. handleGenerate env s = Some (s', map EvVirtualTryOn combos)
                \<and> error s' = None \<and> generatedImages s' = producedImages returned
                \<and> workspaceItems s' =
                    rev (tryOnEntries env img decoded (producedImages returned)) @ workspaceItems s
                \<and> length (tryOnEntries env img decoded (producedImages returned)) =
                    length (producedImages returned)
                \<and> (\<forall>i < length (producedImages returned).
                      tryOnEntries env img decoded (producedImages returned) ! i =
                        \<lparr>img_base64 = producedImages returned ! i, img_mimeType = ''image/png'',
                         img_url = createObjectURL env i (decodedBlob (decoded (producedImages returned ! i))),
                         img_name = ''try-on-'' @ string_of_nat (i + 1) @ ''-'' @ img_name img\<rparr>)"
    using tryOn_completed_state [OF m sel combos real len ok dec] nth
    by (simp add: tryOnEntries_length)
next
  assume h: "0 < k \<and> k \<le> length combos \<and> length earlier = k - 1
            \<and> (\<forall>i < k - 1. virtualTryOn (generateContent env i) = Inr (earlier ! i))
            \<and> virtualTryOn_try (generateContent env (k - 1)) = Inl raw"
  then have k: "0 < k" "k \<le> length combos" and len: "length earlier = k - 1"
    and ok: "\<forall>i < k - 1. virtualTryOn (generateContent env i) = Inr (earlier ! i)"
    and thrown: "virtualTryOn_try (generateContent env (k - 1)) = Inl raw"
    by blast+
  show "\<exists>s'. handleGenerate env s = Some (s', map EvVirtualTryOn (take k combos))
                \<and> error s' = Some (parseGeminiError raw) \<and> generatedImages s' = producedImages earlier
                \<and> workspaceItems s' = workspaceItems s \<and> selectedImage s' = selectedImage s"
    by (rule tryOn_interrupted_state [OF m sel combos real k len ok thrown])
qed

theorem tryOn_materialization_witness:
  "(\<exists>s'. handleGenerate envBothSucceed state0 =
            Some (s', [EvVirtualTryOn [toTryOnItem itemA ''tops'', toTryOnItem itemC ''bottoms''],
                       EvVirtualTryOn [toTryOnItem itemB ''tops'', toTryOnItem itemC ''bottoms'']])
       \<and> error s' = None \<and> generatedImages s' = [''aGk='', ''eW8='']
       \<and> map img_name (workspaceItems s') = [''try-on-2-a.png'', ''try-on-1-a.png'', ''a.png''])
   \<and> (\<exists>s'. handleGenerate envFirstEmpty state0 =
            Some (s', [EvVirtualTryOn [toTryOnItem itemA ''tops'', toTryOnItem itemC ''bottoms''],
                       EvVirtualTryOn [toTryOnItem itemB ''tops'', toTryOnItem itemC ''bottoms'']])
       \<and> error s' = None \<and> generatedImages s' = [''eW8='']
       \<and> map img_name (workspaceItems s') = [''try-on-1-a.png'', ''a.png''])
   \<and> (\<exists>s'. handleGenerate envSecondFails state0 =
            Some (s', [EvVirtualTryOn [toTryOnItem itemA ''tops'', toTryOnItem itemC ''bottoms''],
                       EvVirtualTryOn [toTryOnItem itemB ''tops'', toTryOnItem itemC ''bottoms'']])
       \<and> error s' = Some UNAVAILABLE_MSG \<and> generatedImages s' = [''aGk='']
       \<and> workspaceItems s' = [img0])"
proof -
  let ?combos = "[[toTryOnItem itemA ''tops'', toTryOnItem itemC ''bottoms''],
                  [toTryOnItem itemB ''tops'', toTryOnItem itemC ''bottoms'']]"
  have m: "mode state0 = TryOn" and sel: "selectedImage state0 = Some img0"
    by (simp_all add: state0_def)
  note T = tryOn_materialization [OF m sel state0_combos state0_real]
  have p1: "producedImages [Some ''aGk='', Some ''eW8=''] = [''aGk='', ''eW8='']"
    and p2: "producedImages [None, Some ''eW8=''] = [''eW8='']"
    and p3: "producedImages [Some ''aGk=''] = [''aGk='']"
    by (simp_all add: producedImages_def truthy_def)
  have h1: "length [Some ''aGk='', Some ''eW8=''] = length ?combos
      \<and> (\<forall>i < length ?combos.
            virtualTryOn (generateContent envBothSucceed i) = Inr ([Some ''aGk='', Some ''eW8=''] ! i))
      \<and> (\<forall>r \<in> set (producedImages [Some ''aGk='', Some ''eW8='']). atob envBothSucceed r = Inr (decoded0 r))"
    by (simp add: p1 envBothSucceed_def virtualTryOn_def virtualTryOn_try_def less_Suc_eq)
  have h2: "length [None, Some ''eW8=''] = length ?combos
      \<and> (\<forall>i < length ?combos.
            virtualTryOn (generateContent envFirstEmpty i) = Inr ([None, Some ''eW8=''] ! i))
      \<and> (\<forall>r \<in> set (producedImages [None, Some ''eW8='']). atob envFirstEmpty r = Inr (decoded0 r))"
    by (simp add: p2 envFirstEmpty_def envBothSucceed_def virtualTryOn_def virtualTryOn_try_def less_Suc_eq)
  have h3: "0 < (2::nat) \<and> 2 \<le> length ?combos \<and> length [Some ''aGk=''] = 2 - 1
      \<and> (\<forall>i < 2 - 1. virtualTryOn (generateContent envSecondFails i) = Inr ([Some ''aGk=''] ! i))
      \<and> virtualTryOn_try (generateContent envSecondFails (2 - 1)) = Inl (Error ''503 Service Unavailable'')"
    by (simp add: envSecondFails_def virtualTryOn_def virtualTryOn_try_def)
  have norm: "parseGeminiError (Error ''503 Service Unavailable'') = UNAVAILABLE_MSG"
    by (simp add: parseGeminiError_def lower_eval)
  from T [where env = envBothSucceed and returned = "[Some ''aGk='', Some ''eW8='']" and decoded = decoded0,
      THEN conjunct1, rule_format, OF h1]
  obtain s1 where s1: "handleGenerate envBothSucceed state0 = Some (s1, map EvVirtualTryOn ?combos)"
      "error s1 = None" "generatedImages s1 = [''aGk='', ''eW8='']"
      "workspaceItems s1 = rev (tryOnEntries envBothSucceed img0 decoded0 [''aGk='', ''eW8='']) @ workspaceItems state0"
    by (auto simp: p1)
  from s1(4) have ws1: "map img_name (workspaceItems s1) = [''try-on-2-a.png'', ''try-on-1-a.png'', ''a.png'']"
    by (simp add: tryOnEntries_def newTryOnItem_def img0_def state0_def char_eval)
  from T [where env = envFirstEmpty and returned = "[None, Some ''eW8='']" and decoded = decoded0,
      THEN conjunct1, rule_format, OF h2]
  obtain s2 where s2: "handleGenerate envFirstEmpty state0 = Some (s2, map EvVirtualTryOn ?combos)"
      "error s2 = None" "generatedImages s2 = [''eW8='']"
      "workspaceItems s2 = rev (tryOnEntries envFirstEmpty img0 decoded0 [''eW8='']) @ workspaceItems state0"
    by (auto simp: p2)
  from s2(4) have ws2: "map img_name (workspaceItems s2) = [''try-on-1-a.png'', ''a.png'']"
    by (simp add: tryOnEntries_def newTryOnItem_def img0_def state0_def char_eval)
  from T [where env = envSecondFails and k = 2 and earlier = "[Some ''aGk='']"
        and raw = "Error ''503 Service Unavailable''",
      THEN conjunct2, rule_format, OF h3]
  obtain s3 where s3: "handleGenerate envSecondFails state0 = Some (s3, map EvVirtualTryOn (take 2 ?combos))"
      "error s3 = Some UNAVAILABLE_MSG" "generatedImages s3 = [''aGk='']"
      "workspaceItems s3 = workspaceItems state0"
    by (auto simp: p3 norm)
  from s3(4) have ws3: "workspaceItems s3 = [img0]" by (simp add: state0_def)
  from s1(1,2,3) ws1 s2(1,2,3) ws2 s3(1,2,3) ws3 show ?thesis by simp
qed

text \<open>
  Claim C6 as it was stated says that the images of a batch that a failed render ended
  are materialized as workspace entries too. With the first of two renders returning an
  image and the second throwing, the buffer holds the image and the workspace list is
  unchanged.
\<close>

theorem failed_batch_adds_no_workspace_entry_counterexample:
  "\<exists>s' tr. handleGenerate envSecondFails state0 = Some (s', tr)
      \<and> generatedImages s' = [''aGk='']
      \<and> workspaceItems s' = workspaceItems state0
      \<and> workspaceItems state0 = [img0]"
  by (simp add: handleGenerate_def tryOnBranch_def finish_def Let_def state0_combos [simplified state0_def, simplified]
      state0_def envSecondFails_def virtualTryOn_def virtualTryOn_try_def truthy_def
      toTryOnItem_def itemA_def itemB_def itemC_def img0_def)

text \<open>
  A batch of \<open>n \<ge> 1\<close> renders that all return image data (and decode): the \<open>n\<close> new
  entries are at the front of the workspace list in reverse combination order, position
  \<open>j\<close> holding the entry of combination \<open>n - j\<close> (counting combinations from 1). The
  selected photo is \<open>newItems[0]\<close> as the array is when line 216 runs: the entry of the
  last combination when the updater of line 214 has already reversed the array, the entry
  of the first combination when the updater runs at the next render.
\<close>

lemma tryOn_success_workspace_and_selection:
  assumes m: "mode s = TryOn" and sel: "selectedImage s = Some img"
    and combos: "generateOutfitCombinations (selectedItems s) = combos"
    and real: "\<not> list_ex (\<lambda>item. img_base64 (item_image item) = []) (concat combos)"
    and ne: "combos \<noteq> []"
    and len: "length images = length combos"
    and ok: "\<forall>i < length combos. virtualTryOn (generateContent env i) = Inr (Some (images ! i)) \<and> images ! i \<noteq> []"
    and dec: "\<forall>r \<in> set images. atob env r = Inr (decoded r)"
  shows "\<exists>s'. handleGenerate env s = Some (s', map EvVirtualTryOn combos)
           \<and> error s' = None \<and> generatedImages s' = images
           \<and> workspaceItems s' = rev (tryOnEntries env img decoded images) @ workspaceItems s
           \<and> (\<forall>j < length combos.
                 workspaceItems s' ! j =
                   newTryOnItem env img (length combos - 1 - j) (images ! (length combos - 1 - j))
                     (decodedBlob (decoded (images ! (length combos - 1 - j)))))
           \<and> selectedImage s' =
               Some (case updaterTiming env of
                       AtCall \<Rightarrow> newTryOnItem env img (length combos - 1) (images ! (length combos - 1))
                                   (decodedBlob (decoded (images ! (length combos - 1))))
                     | AtNextRender \<Rightarrow> newTryOnItem env img 0 (images ! 0) (decodedBlob (decoded (images ! 0))))"
proof -
  let ?es = "tryOnEntries env img decoded images"
  from ne len have n: "0 < length images" by auto
  have el: "length ?es = length images" by (rule tryOnEntries_length)
  with n have ene: "?es \<noteq> []" by auto
  have front: "\<forall>j < length combos. (rev ?es @ workspaceItems s) ! j =
      newTryOnItem env img (length combos - 1 - j) (images ! (length combos - 1 - j))
        (decodedBlob (decoded (images ! (length combos - 1 - j))))"
  proof (intro allI impI)
    fix j assume j: "j < length combos"
    with len el have "(rev ?es @ workspaceItems s) ! j = ?es ! (length combos - 1 - j)"
      by (simp add: nth_append rev_nth)
    also from j len have "\<dots> = newTryOnItem env img (length combos - 1 - j) (images ! (length combos - 1 - j))
        (decodedBlob (decoded (images ! (length combos - 1 - j))))"
      by (simp add: tryOnEntries_nth)
    finally show "(rev ?es @ workspaceItems s) ! j =
      newTryOnItem env img (length combos - 1 - j) (images ! (length combos - 1 - j))
        (decodedBlob (decoded (images ! (length combos - 1 - j))))" .
  qed
  have l: "last ?es = newTryOnItem env img (length combos - 1) (images ! (length combos - 1))
        (decodedBlob (decoded (images ! (length combos - 1))))"
    using ene el len n by (simp add: last_conv_nth tryOnEntries_nth)
  have h: "hd ?es = newTryOnItem env img 0 (images ! 0) (decodedBlob (decoded (images ! 0)))"
    using ene n by (simp add: hd_conv_nth tryOnEntries_nth)
  show ?thesis
    using tryOn_success_state [OF m sel combos real ne len ok dec] front l h
    by (cases "updaterTiming env") simp_all
qed

text \<open>With the updater run inside the setter, two renders select the second result.\<close>

lemma tryOn_success_workspace_and_selection_at_call:
  "\<exists>s'. handleGenerate envBothSucceedAtCall state0 =
           Some (s', [EvVirtualTryOn [toTryOnItem itemA ''tops'', toTryOnItem itemC ''bottoms''],
                      EvVirtualTryOn [toTryOnItem itemB ''tops'', toTryOnItem itemC ''bottoms'']])
      \<and> error s' = None \<and> generatedImages s' = [''aGk='', ''eW8='']
      \<and> map img_name (workspaceItems s') = [''try-on-2-a.png'', ''try-on-1-a.png'', ''a.png'']
      \<and> map_option img_name (selectedImage s') = Some ''try-on-2-a.png''"
proof -
  have m: "mode state0 = TryOn" and sel: "selectedImage state0 = Some img0"
    by (simp_all add: state0_def)
  have ok: "\<forall>i < length [[toTryOnItem itemA ''tops'', toTryOnItem itemC ''bottoms''],
                           [toTryOnItem itemB ''tops'', toTryOnItem itemC ''bottoms'']].
      virtualTryOn (generateContent envBothSucceedAtCall i) = Inr (Some ([''aGk='', ''eW8=''] ! i))
      \<and> [''aGk='', ''eW8=''] ! i \<noteq> []"
    by (simp add: envBothSucceedAtCall_def envBothSucceed_def virtualTryOn_def virtualTryOn_try_def
        less_Suc_eq)
  have dec: "\<forall>r \<in> set [''aGk='', ''eW8='']. atob envBothSucceedAtCall r = Inr (decoded0 r)"
    by (simp add: envBothSucceedAtCall_def envBothSucceed_def)
  let ?combos = "[[toTryOnItem itemA ''tops'', toTryOnItem itemC ''bottoms''],
                  [toTryOnItem itemB ''tops'', toTryOnItem itemC ''bottoms'']]"
  let ?images = "[''aGk='', ''eW8='']"
  let ?env = envBothSucceedAtCall
  from tryOn_success_workspace_and_selection [OF m sel state0_combos state0_real _ _ ok dec]
  obtain s' where run: "handleGenerate ?env state0 = Some (s', map EvVirtualTryOn ?combos)"
    and err: "error s' = None" and gen: "generatedImages s' = ?images"
    and ws: "workspaceItems s' = rev (tryOnEntries ?env img0 decoded0 ?images) @ workspaceItems state0"
    and se: "selectedImage s' =
               Some (case updaterTiming ?env of
                       AtCall \<Rightarrow> newTryOnItem ?env img0 (length ?combos - 1) (?images ! (length ?combos - 1))
                                   (decodedBlob (decoded0 (?images ! (length ?combos - 1))))
                     | AtNextRender \<Rightarrow> newTryOnItem ?env img0 0 (?images ! 0) (decodedBlob (decoded0 (?images ! 0))))"
    by auto
  from ws have ws': "map img_name (workspaceItems s') = [''try-on-2-a.png'', ''try-on-1-a.png'', ''a.png'']"
    by (simp add: tryOnEntries_def newTryOnItem_def img0_def state0_def char_eval)
  from se have se': "map_option img_name (selectedImage s') = Some ''try-on-2-a.png''"
    by (simp add: envBothSucceedAtCall_def envBothSucceed_def newTryOnItem_def img0_def char_eval)
  from run err gen ws' se' show ?thesis by simp
qed

text \<open>
  Claim C10 says that after a fully successful batch the new entries are at the front of
  the workspace list in reverse combination order and the selected photo is the result
  of the last combination. With two renders and the updater of line 214 run at the next
  render, the workspace list starts with the second result, as the claim says, and the
  selected photo is the first result, which then stands second in the list. The other
  paths (lines 119-120 and 234-235) select the entry they put at the front.
\<close>

theorem tryOn_selects_first_result_when_updater_deferred:
  "\<exists>s' tr. handleGenerate envBothSucceed state0 = Some (s', tr)
      \<and> error s' = None \<and> generatedImages s' = [''aGk='', ''eW8='']
      \<and> map img_name (workspaceItems s') = [''try-on-2-a.png'', ''try-on-1-a.png'', ''a.png'']
      \<and> map_option img_name (selectedImage s') = Some ''try-on-1-a.png''
      \<and> map_option img_base64 (selectedImage s') = Some ''aGk=''"
  by (simp add: handleGenerate_def tryOnBranch_def finish_def Let_def state0_combos [simplified state0_def, simplified]
      state0_def envBothSucceed_def virtualTryOn_def virtualTryOn_try_def truthy_def
      base64ToBlob_def materialize_def workspaceUpdater_def newTryOnItem_def img0_def char_eval
      toTryOnItem_def itemA_def itemB_def itemC_def)

section \<open>LongRunningOperationPoller: the claims\<close>

lemma pollLoop_done: "op_done operation \<Longrightarrow> pollLoop polls i operation tr = Some (Inr operation, tr)"
  by (subst pollLoop.simps) simp

lemma pollLoop_poll:
  "\<not> op_done operation \<Longrightarrow> polls i = Inr operation' \<Longrightarrow>
   pollLoop polls i operation tr =
     pollLoop polls (Suc i) operation' (tr @ [EvSetTimeout 10000, EvGetVideosOperation])"
  by (subst pollLoop.simps) simp

lemma pollLoop_poll_throws:
  "\<not> op_done operation \<Longrightarrow> polls i = Inl e \<Longrightarrow>
   pollLoop polls i operation tr = Some (Inl e, tr @ [EvSetTimeout 10000, EvGetVideosOperation])"
  by (subst pollLoop.simps) simp

lemma pollLoop_completes:
  "(\<forall>j < length later. polls (i + j) = Inr (later ! j)) \<Longrightarrow>
   (\<forall>operation \<in> set (butlast (op0 # later)). \<not> op_done operation) \<Longrightarrow>
   op_done (last (op0 # later)) \<Longrightarrow>
   pollLoop polls i op0 tr =
     Some (Inr (last (op0 # later)),
           tr @ concat (replicate (length later) [EvSetTimeout 10000, EvGetVideosOperation]))"
proof (induction later arbitrary: i op0 tr)
  case Nil
  then show ?case by (simp add: pollLoop_done)
next
  case (Cons op1 later)
  from Cons.prems(2) have nd: "\<not> op_done op0" by simp
  from Cons.prems(1) [rule_format, of 0] have p: "polls i = Inr op1" by simp
  have polls': "\<forall>j < length later. polls (Suc i + j) = Inr (later ! j)"
  proof (intro allI impI)
    fix j assume "j < length later"
    with Cons.prems(1) [rule_format, of "Suc j"] show "polls (Suc i + j) = Inr (later ! j)" by simp
  qed
  from Cons.prems(2) have pend: "\<forall>operation \<in> set (butlast (op1 # later)). \<not> op_done operation"
    by (simp split: if_splits)
  from Cons.prems(3) have dn: "op_done (last (op1 # later))" by simp
  from Cons.IH [OF polls' pend dn, of "tr @ [EvSetTimeout 10000, EvGetVideosOperation]"]
  show ?case by (simp add: pollLoop_poll [where polls = polls and i = i, OF nd p])
qed

lemma generateVideo_try_completes:
  assumes sub: "generateVideos env = Inr op0"
    and polls: "\<forall>j < length later. getVideosOperation env j = Inr (later ! j)"
    and pending: "\<forall>operation \<in> set (butlast (op0 # later)). \<not> op_done operation"
    and dn: "op_done (last (op0 # later))"
  shows "generateVideo_try env prompt =
           Some (downloadVideo env (last (op0 # later)) (pollTrace prompt (length later)))"
  using pollLoop_completes [of later "getVideosOperation env" 0 op0 "[EvGenerateVideos prompt]"]
    sub polls pending dn
  by (simp add: generateVideo_try_def pollTrace_def)

text \<open>The loop ends early when a poll throws, and not at all when no poll reports \<open>done\<close>.\<close>

lemma pollLoop_throws_at:
  "(\<forall>j < length later. polls (i + j) = Inr (later ! j)) \<Longrightarrow>
   (\<forall>operation \<in> set (op0 # later). \<not> op_done operation) \<Longrightarrow>
   polls (i + length later) = Inl e \<Longrightarrow>
   pollLoop polls i op0 tr =
     Some (Inl e, tr @ concat (replicate (Suc (length later)) [EvSetTimeout 10000, EvGetVideosOperation]))"
proof (induction later arbitrary: i op0 tr)
  case Nil
  then show ?case by (simp add: pollLoop_poll_throws)
next
  case (Cons op1 later)
  from Cons.prems(2) have nd: "\<not> op_done op0" by simp
  from Cons.prems(1) [rule_format, of 0] have p: "polls i = Inr op1" by simp
  have polls': "\<forall>j < length later. polls (Suc i + j) = Inr (later ! j)"
  proof (intro allI impI)
    fix j assume "j < length later"
    with Cons.prems(1) [rule_format, of "Suc j"] show "polls (Suc i + j) = Inr (later ! j)" by simp
  qed
  from Cons.prems(2) have pend: "\<forall>operation \<in> set (op1 # later). \<not> op_done operation"
    by simp
  from Cons.prems(3) have th: "polls (Suc i + length later) = Inl e" by simp
  from Cons.IH [OF polls' pend th, of "tr @ [EvSetTimeout 10000, EvGetVideosOperation]"]
  show ?case by (simp add: pollLoop_poll [where polls = polls and i = i, OF nd p])
qed

lemma pollLoop_Some_ends:
  "pollLoop polls i operation tr = Some r \<Longrightarrow>
   op_done operation \<or> (\<exists>j \<ge> i. case polls j of Inl e \<Rightarrow> True | Inr operation' \<Rightarrow> op_done operation')"
proof (induction arbitrary: r rule: pollLoop.raw_induct [rotated -1, consumes 1])
  case (1 pollLoop' polls i operation tr)
  show ?case
  proof (cases "op_done operation")
    case True
    then show ?thesis by simp
  next
    case nd: False
    show ?thesis
    proof (cases "polls i")
      case (Inl e)
      then have "case polls i of Inl e \<Rightarrow> True | Inr operation' \<Rightarrow> op_done operation'" by simp
      then show ?thesis by blast
    next
      case (Inr operation')
      with 1 nd have "op_done operation' \<or>
          (\<exists>j \<ge> Suc i. case polls j of Inl e \<Rightarrow> True | Inr operation' \<Rightarrow> op_done operation')"
        by auto
      then show ?thesis
      proof
        assume "op_done operation'"
        with Inr have "case polls i of Inl e \<Rightarrow> True | Inr operation' \<Rightarrow> op_done operation'" by simp
        then show ?thesis by blast
      next
        assume "\<exists>j \<ge> Suc i. case polls j of Inl e \<Rightarrow> True | Inr operation' \<Rightarrow> op_done operation'"
        then obtain j where "Suc i \<le> j" "case polls j of Inl e \<Rightarrow> True | Inr operation' \<Rightarrow> op_done operation'"
          by blast
        then have "i \<le> j \<and> (case polls j of Inl e \<Rightarrow> True | Inr operation' \<Rightarrow> op_done operation')"
          by simp
        then show ?thesis by blast
      qed
    qed
  qed
qed

lemma pollLoop_never_returns:
  "\<not> op_done operation \<Longrightarrow> (\<forall>j. \<exists>operation'. polls j = Inr operation' \<and> \<not> op_done operation') \<Longrightarrow>
   pollLoop polls i operation tr = None"
proof (rule ccontr)
  assume nd: "\<not> op_done operation"
    and all: "\<forall>j. \<exists>operation'. polls j = Inr operation' \<and> \<not> op_done operation'"
    and "pollLoop polls i operation tr \<noteq> None"
  then obtain r where "pollLoop polls i operation tr = Some r" by auto
  from pollLoop_Some_ends [OF this] nd
  obtain j where "case polls j of Inl e \<Rightarrow> True | Inr operation' \<Rightarrow> op_done operation'" by blast
  with all [rule_format, of j] show False by auto
qed

lemma generateVideo_poll_throws:
  assumes sub: "generateVideos env = Inr op0"
    and polls: "\<forall>j < length waiting. getVideosOperation env j = Inr (waiting ! j)"
    and pending: "\<forall>operation \<in> set (op0 # waiting). \<not> op_done operation"
    and thrown: "getVideosOperation env (length waiting) = Inl e"
  shows "generateVideo env prompt =
           Some (Inl (Error (parseGeminiError e)), pollTrace prompt (Suc (length waiting)))"
  using pollLoop_throws_at [of waiting "getVideosOperation env" 0 op0 e "[EvGenerateVideos prompt]"]
    sub polls pending thrown
  by (simp add: generateVideo_def generateVideo_try_def pollTrace_def)

text \<open>
  Claim C9, as amended. After the submission has returned an operation,
  \<open>generateVideo\<close> waits 10000 ms and polls, again and again, until an operation
  reports \<open>done\<close>. When that is the operation of the \<open>n\<close>-th poll (the submitted one
  when \<open>n = 0\<close>), exactly \<open>n\<close> polls are made, each after its wait, and then: without
  a download reference the call fails and fetches nothing; with one, the reference with
  \<open>&key=\<close> and the key appended is fetched, and an \<open>ok\<close> response gives the local
  URL of its blob, while a response that is not \<open>ok\<close> or a fetch that throws fails the
  call with the normalized error. When a poll throws before any operation reports
  \<open>done\<close>, the call fails with the normalized error of what the poll threw.
\<close>

theorem generateVideo_contract:
  assumes sub: "generateVideos env = Inr op0"
  shows "((\<forall>j < length later. getVideosOperation env j = Inr (later ! j))
          \<and> (\<forall>operation \<in> set (butlast (op0 # later)). \<not> op_done operation)
          \<and> op_done (last (op0 # later)) \<longrightarrow>
            (\<not> truthy (op_uri (last (op0 # later))) \<longrightarrow>
               (\<exists>msg. generateVideo env prompt = Some (Inl (Error msg), pollTrace prompt (length later))))
          \<and> (op_uri (last (op0 # later)) = Some link \<and> link \<noteq> []
               \<and> fetch env (link @ ''&key='' @ API_KEY env) = FetchResponse True statusText videoBlob \<longrightarrow>
               generateVideo env prompt =
                 Some (Inr (videoObjectURL env videoBlob),
                       pollTrace prompt (length later) @ [EvFetch (link @ ''&key='' @ API_KEY env)]))
          \<and> (op_uri (last (op0 # later)) = Some link \<and> link \<noteq> []
               \<and> fetch env (link @ ''&key='' @ API_KEY env) = FetchResponse False statusText videoBlob \<longrightarrow>
               generateVideo env prompt =
                 Some (Inl (Error (parseGeminiError (Error (''Failed to download video: '' @ statusText)))),
                       pollTrace prompt (length later) @ [EvFetch (link @ ''&key='' @ API_KEY env)]))
          \<and> (op_uri (last (op0 # later)) = Some link \<and> link \<noteq> []
               \<and> fetch env (link @ ''&key='' @ API_KEY env) = FetchThrows e \<longrightarrow>
               generateVideo env prompt =
                 Some (Inl (Error (parseGeminiError e)),
                       pollTrace prompt (length later) @ [EvFetch (link @ ''&key='' @ API_KEY env)])))
       \<and> ((\<forall>j < length waiting. getVideosOperation env j = Inr (waiting ! j))
          \<and> (\<forall>operation \<in> set (op0 # waiting). \<not> op_done operation)
          \<and> getVideosOperation env (length waiting) = Inl thrown \<longrightarrow>
            generateVideo env prompt =
              Some (Inl (Error (parseGeminiError thrown)), pollTrace prompt (Suc (length waiting))))"
proof (intro conjI)
  show "(\<forall>j < length later. getVideosOperation env j = Inr (later ! j))
          \<and> (\<forall>operation \<in> set (butlast (op0 # later)). \<not> op_done operation)
          \<and> op_done (last (op0 # later)) \<longrightarrow>
            (\<not> truthy (op_uri (last (op0 # later))) \<longrightarrow>
               (\<exists>msg. generateVideo env prompt = Some (Inl (Error msg), pollTrace prompt (length later))))
          \<and> (op_uri (last (op0 # later)) = Some link \<and> link \<noteq> []
               \<and> fetch env (link @ ''&key='' @ API_KEY env) = FetchResponse True statusText videoBlob \<longrightarrow>
               generateVideo env prompt =
                 Some (Inr (videoObjectURL env videoBlob),
                       pollTrace prompt (length later) @ [EvFetch (link @ ''&key='' @ API_KEY env)]))
          \<and> (op_uri (last (op0 # later)) = Some link \<and> link \<noteq> []
               \<and> fetch env (link @ ''&key='' @ API_KEY env) = FetchResponse False statusText videoBlob \<longrightarrow>
               generateVideo env prompt =
                 Some (Inl (Error (parseGeminiError (Error (''Failed to download video: '' @ statusText)))),
                       pollTrace prompt (length later) @ [EvFetch (link @ ''&key='' @ API_KEY env)]))
          \<and> (op_uri (last (op0 # later)) = Some link \<and> link \<noteq> []
               \<and> fetch env (link @ ''&key='' @ API_KEY env) = FetchThrows e \<longrightarrow>
               generateVideo env prompt =
                 Some (Inl (Error (parseGeminiError e)),
                       pollTrace prompt (length later) @ [EvFetch (link @ ''&key='' @ API_KEY env)]))"
  proof
    assume h: "(\<forall>j < length later. getVideosOperation env j = Inr (later ! j))
          \<and> (\<forall>operation \<in> set (butlast (op0 # later)). \<not> op_done operation)
          \<and> op_done (last (op0 # later))"
    then have polls: "\<forall>j < length later. getVideosOperation env j = Inr (later ! j)"
      and pending: "\<forall>operation \<in> set (butlast (op0 # later)). \<not> op_done operation"
      and dn: "op_done (last (op0 # later))"
      by blast+
    show "(\<not> truthy (op_uri (last (op0 # later))) \<longrightarrow>
               (\<exists>msg. generateVideo env prompt = Some (Inl (Error msg), pollTrace prompt (length later))))
          \<and> (op_uri (last (op0 # later)) = Some link \<and> link \<noteq> []
               \<and> fetch env (link @ ''&key='' @ API_KEY env) = FetchResponse True statusText videoBlob \<longrightarrow>
               generateVideo env prompt =
                 Some (Inr (videoObjectURL env videoBlob),
                       pollTrace prompt (length later) @ [EvFetch (link @ ''&key='' @ API_KEY env)]))
          \<and> (op_uri (last (op0 # later)) = Some link \<and> link \<noteq> []
               \<and> fetch env (link @ ''&key='' @ API_KEY env) = FetchResponse False statusText videoBlob \<longrightarrow>
               generateVideo env prompt =
                 Some (Inl (Error (parseGeminiError (Error (''Failed to download video: '' @ statusText)))),
                       pollTrace prompt (length later) @ [EvFetch (link @ ''&key='' @ API_KEY env)]))
          \<and> (op_uri (last (op0 # later)) = Some link \<and> link \<noteq> []
               \<and> fetch env (link @ ''&key='' @ API_KEY env) = FetchThrows e \<longrightarrow>
               generateVideo env prompt =
                 Some (Inl (Error (parseGeminiError e)),
                       pollTrace prompt (length later) @ [EvFetch (link @ ''&key='' @ API_KEY env)]))"
      using generateVideo_try_completes [OF sub polls pending dn, of prompt]
      by (simp add: generateVideo_def downloadVideo_def truthy_def Let_def)
  qed
next
  show "(\<forall>j < length waiting. getVideosOperation env j = Inr (waiting ! j))
          \<and> (\<forall>operation \<in> set (op0 # waiting). \<not> op_done operation)
          \<and> getVideosOperation env (length waiting) = Inl thrown \<longrightarrow>
            generateVideo env prompt =
              Some (Inl (Error (parseGeminiError thrown)), pollTrace prompt (Suc (length waiting)))"
    using generateVideo_poll_throws [OF sub, of waiting thrown prompt] by blast
qed

theorem generateVideo_contract_witness:
  "generateVideo videoEnvTwoPolls ''walk'' =
     Some (Inr ''blob:video'',
           [EvGenerateVideos ''walk'', EvSetTimeout 10000, EvGetVideosOperation,
            EvSetTimeout 10000, EvGetVideosOperation,
            EvFetch ''https://video.example/v1?alt=media&key=KEY''])
   \<and> (\<exists>msg. generateVideo videoEnvNoLink ''walk'' =
         Some (Inl (Error msg), [EvGenerateVideos ''walk'', EvSetTimeout 10000, EvGetVideosOperation]))
   \<and> generateVideo videoEnvForbidden ''walk'' =
       Some (Inl (Error UNKNOWN_MSG),
             [EvGenerateVideos ''walk'', EvSetTimeout 10000, EvGetVideosOperation,
              EvSetTimeout 10000, EvGetVideosOperation,
              EvFetch ''https://video.example/v1?alt=media&key=KEY''])
   \<and> generateVideo videoEnvPollThrows ''walk'' =
       Some (Inl (Error UNAVAILABLE_MSG),
             [EvGenerateVideos ''walk'', EvSetTimeout 10000, EvGetVideosOperation,
              EvSetTimeout 10000, EvGetVideosOperation])"
proof -
  have sub: "generateVideos videoEnvTwoPolls = Inr opPending"
    by (simp add: videoEnvTwoPolls_def)
  have completes: "(\<forall>j < length [opPending, opDoneWithLink].
        getVideosOperation videoEnvTwoPolls j = Inr ([opPending, opDoneWithLink] ! j))
      \<and> (\<forall>operation \<in> set (butlast (opPending # [opPending, opDoneWithLink])). \<not> op_done operation)
      \<and> op_done (last (opPending # [opPending, opDoneWithLink]))"
    by (simp add: videoEnvTwoPolls_def less_Suc_eq opPending_def opDoneWithLink_def)
  have uri: "op_uri (last (opPending # [opPending, opDoneWithLink])) = Some ''https://video.example/v1?alt=media''
      \<and> ''https://video.example/v1?alt=media'' \<noteq> []
      \<and> fetch videoEnvTwoPolls (''https://video.example/v1?alt=media'' @ ''&key='' @ API_KEY videoEnvTwoPolls)
          = FetchResponse True ''OK'' videoBlob0"
    by (simp add: opDoneWithLink_def videoEnvTwoPolls_def)
  from generateVideo_contract [where prompt = "''walk''", OF sub, THEN conjunct1, THEN mp, OF completes,
      THEN conjunct2, THEN conjunct1, THEN mp, OF uri]
  have 1: "generateVideo videoEnvTwoPolls ''walk'' =
     Some (Inr ''blob:video'',
           [EvGenerateVideos ''walk'', EvSetTimeout 10000, EvGetVideosOperation,
            EvSetTimeout 10000, EvGetVideosOperation,
            EvFetch ''https://video.example/v1?alt=media&key=KEY''])"
    by (simp add: pollTrace_def videoEnvTwoPolls_def)
  have sub2: "generateVideos videoEnvNoLink = Inr opPending"
    by (simp add: videoEnvNoLink_def videoEnvTwoPolls_def)
  have completes2: "(\<forall>j < length [opDoneNoLink]. getVideosOperation videoEnvNoLink j = Inr ([opDoneNoLink] ! j))
      \<and> (\<forall>operation \<in> set (butlast (opPending # [opDoneNoLink])). \<not> op_done operation)
      \<and> op_done (last (opPending # [opDoneNoLink]))"
    by (simp add: videoEnvNoLink_def opPending_def opDoneNoLink_def)
  have nouri: "\<not> truthy (op_uri (last (opPending # [opDoneNoLink])))"
    by (simp add: opDoneNoLink_def truthy_def)
  from generateVideo_contract [where prompt = "''walk''", OF sub2, THEN conjunct1, THEN mp, OF completes2,
      THEN conjunct1, THEN mp, OF nouri]
  have 2: "\<exists>msg. generateVideo videoEnvNoLink ''walk'' =
         Some (Inl (Error msg), [EvGenerateVideos ''walk'', EvSetTimeout 10000, EvGetVideosOperation])"
    by (simp add: pollTrace_def)
  have sub3: "generateVideos videoEnvForbidden = Inr opPending"
    by (simp add: videoEnvForbidden_def videoEnvTwoPolls_def)
  have completes3: "(\<forall>j < length [opPending, opDoneWithLink].
        getVideosOperation videoEnvForbidden j = Inr ([opPending, opDoneWithLink] ! j))
      \<and> (\<forall>operation \<in> set (butlast (opPending # [opPending, opDoneWithLink])). \<not> op_done operation)
      \<and> op_done (last (opPending # [opPending, opDoneWithLink]))"
    by (simp add: videoEnvForbidden_def videoEnvTwoPolls_def less_Suc_eq opPending_def opDoneWithLink_def)
  have uri3: "op_uri (last (opPending # [opPending, opDoneWithLink])) = Some ''https://video.example/v1?alt=media''
      \<and> ''https://video.example/v1?alt=media'' \<noteq> []
      \<and> fetch videoEnvForbidden (''https://video.example/v1?alt=media'' @ ''&key='' @ API_KEY videoEnvForbidden)
          = FetchResponse False ''Forbidden'' videoBlob0"
    by (simp add: opDoneWithLink_def videoEnvForbidden_def videoEnvTwoPolls_def)
  have norm: "parseGeminiError (Error ''Failed to download video: Forbidden'') = UNKNOWN_MSG"
    by (simp add: parseGeminiError_def lower_eval)
  have key: "API_KEY videoEnvForbidden = ''KEY''"
    by (simp add: videoEnvForbidden_def videoEnvTwoPolls_def)
  from generateVideo_contract [where prompt = "''walk''", OF sub3, THEN conjunct1, THEN mp, OF completes3,
      THEN conjunct2, THEN conjunct2, THEN conjunct1, THEN mp, OF uri3]
  have 3: "generateVideo videoEnvForbidden ''walk'' =
       Some (Inl (Error UNKNOWN_MSG),
             [EvGenerateVideos ''walk'', EvSetTimeout 10000, EvGetVideosOperation,
              EvSetTimeout 10000, EvGetVideosOperation,
              EvFetch ''https://video.example/v1?alt=media&key=KEY''])"
    by (simp add: pollTrace_def key norm)
  have sub4: "generateVideos videoEnvPollThrows = Inr opPending"
    by (simp add: videoEnvPollThrows_def videoEnvTwoPolls_def)
  have thrown: "(\<forall>j < length [opPending]. getVideosOperation videoEnvPollThrows j = Inr ([opPending] ! j))
      \<and> (\<forall>operation \<in> set (opPending # [opPending]). \<not> op_done operation)
      \<and> getVideosOperation videoEnvPollThrows (length [opPending]) = Inl (Error ''503 Service Unavailable'')"
    by (simp add: videoEnvPollThrows_def opPending_def)
  have norm4: "parseGeminiError (Error ''503 Service Unavailable'') = UNAVAILABLE_MSG"
    by (simp add: parseGeminiError_def lower_eval)
  from generateVideo_contract [where prompt = "''walk''", OF sub4, THEN conjunct2, THEN mp, OF thrown]
  have 4: "generateVideo videoEnvPollThrows ''walk'' =
       Some (Inl (Error UNAVAILABLE_MSG),
             [EvGenerateVideos ''walk'', EvSetTimeout 10000, EvGetVideosOperation,
              EvSetTimeout 10000, EvGetVideosOperation])"
    by (simp add: pollTrace_def norm4)
  from 1 2 3 4 show ?thesis by blast
qed

text \<open>
  Claim C9 as it was stated says that a download reference on the completed operation
  gives a local resource URL. When the download answers with a status that is not
  \<open>ok\<close>, the call fails.
\<close>

theorem download_not_ok_counterexample:
  "generateVideos videoEnvForbidden = Inr opPending
   \<and> getVideosOperation videoEnvForbidden 0 = Inr opPending
   \<and> getVideosOperation videoEnvForbidden 1 = Inr opDoneWithLink
   \<and> op_done opDoneWithLink
   \<and> op_uri opDoneWithLink = Some ''https://video.example/v1?alt=media''
   \<and> generateVideo videoEnvForbidden ''walk'' =
       Some (Inl (Error UNKNOWN_MSG),
             [EvGenerateVideos ''walk'', EvSetTimeout 10000, EvGetVideosOperation,
              EvSetTimeout 10000, EvGetVideosOperation,
              EvFetch ''https://video.example/v1?alt=media&key=KEY''])"
proof -
  have sub: "generateVideos videoEnvForbidden = Inr opPending"
    by (simp add: videoEnvForbidden_def videoEnvTwoPolls_def)
  have polls: "\<forall>j < length [opPending, opDoneWithLink].
      getVideosOperation videoEnvForbidden j = Inr ([opPending, opDoneWithLink] ! j)"
    by (simp add: videoEnvForbidden_def videoEnvTwoPolls_def less_Suc_eq)
  have pending: "\<forall>operation \<in> set (butlast (opPending # [opPending, opDoneWithLink])). \<not> op_done operation"
    by (simp add: opPending_def)
  have dn: "op_done (last (opPending # [opPending, opDoneWithLink]))"
    by (simp add: opDoneWithLink_def)
  have norm: "parseGeminiError (Error ''Failed to download video: Forbidden'') = UNKNOWN_MSG"
    by (simp add: parseGeminiError_def lower_eval)
  have run: "generateVideo videoEnvForbidden ''walk'' =
       Some (Inl (Error UNKNOWN_MSG),
             [EvGenerateVideos ''walk'', EvSetTimeout 10000, EvGetVideosOperation,
              EvSetTimeout 10000, EvGetVideosOperation,
              EvFetch ''https://video.example/v1?alt=media&key=KEY''])"
    using generateVideo_try_completes [OF sub polls pending dn, of "''walk''"]
    by (simp add: generateVideo_def downloadVideo_def truthy_def opDoneWithLink_def pollTrace_def
        videoEnvForbidden_def videoEnvTwoPolls_def norm)
  from sub polls dn run show ?thesis
    by (simp add: opDoneWithLink_def videoEnvForbidden_def videoEnvTwoPolls_def)
qed

section \<open>GenerationOrchestrator: the credential gate\<close>

text \<open>Of the six normalized messages, the test of line 251 finds the credential message only.\<close>

lemma credential_message_detected: "str_includes CREDENTIAL_MSG ''API Key not found''"
  by (simp add: CREDENTIAL_MSG_def)

lemma other_messages_not_detected:
  "\<not> str_includes CONFIGURATION_MSG ''API Key not found''"
  "\<not> str_includes QUOTA_MSG ''API Key not found''"
  "\<not> str_includes UNAVAILABLE_MSG ''API Key not found''"
  "\<not> str_includes BLOCKED_MSG ''API Key not found''"
  "\<not> str_includes UNKNOWN_MSG ''API Key not found''"
  by (simp_all add: CONFIGURATION_MSG_def QUOTA_MSG_def UNAVAILABLE_MSG_def BLOCKED_MSG_def
      UNKNOWN_MSG_def)

lemma generateVideo_submission_throws:
  "generateVideos env = Inl e \<Longrightarrow>
   generateVideo env prompt = Some (Inl (Error (parseGeminiError e)), [EvGenerateVideos prompt])"
  by (simp add: generateVideo_def generateVideo_try_def)

text \<open>
  Claim C7. In a video run that reaches the credential check (a photo is selected, the
  prompt is not blank): when the check reports no credential, the run opens the
  credential selection, sets the availability flag, fails with the message that asks to
  click again, and makes no call to the video service; and when \<open>generateVideo\<close>
  fails with the credential message, the flag is set back to false and that message is
  shown.
\<close>

theorem video_credential_gate:
  assumes m: "mode s = Video" and sel: "selectedImage s = Some img"
    and prompt: "trim (videoPrompt s) \<noteq> []"
  shows "(\<not> hasSelectedApiKey env \<longrightarrow>
            (\<exists>s'. handleGenerate env s = Some (s', [EvHasSelectedApiKey, EvOpenSelectKey])
               \<and> isApiKeySelected s' = True \<and> error s' = Some RETRY_MSG
               \<and> generatedVideoUrl s' = None \<and> isLoading s' = False))
       \<and> (hasSelectedApiKey env
            \<and> generateVideo (video env) (videoPrompt s) = Some (Inl (Error CREDENTIAL_MSG), tr) \<longrightarrow>
            (\<exists>s'. handleGenerate env s = Some (s', EvHasSelectedApiKey # tr)
               \<and> isApiKeySelected s' = False \<and> error s' = Some CREDENTIAL_MSG
               \<and> generatedVideoUrl s' = None \<and> isLoading s' = False))"
  using m sel prompt
  by (simp add: handleGenerate_def videoBranch_def finish_def Let_def credential_message_detected)

theorem video_credential_gate_witness:
  "(\<exists>s'. handleGenerate envNoKey (stateVideo\<lparr>isApiKeySelected := False\<rparr>) =
            Some (s', [EvHasSelectedApiKey, EvOpenSelectKey])
       \<and> isApiKeySelected s' = True \<and> error s' = Some RETRY_MSG)
   \<and> (\<exists>s'. handleGenerate envKeyRejected stateVideo =
            Some (s', [EvHasSelectedApiKey, EvGenerateVideos ''A model walking on a runway.''])
       \<and> isApiKeySelected s' = False \<and> error s' = Some CREDENTIAL_MSG)"
proof -
  have m: "mode stateVideo = Video" "mode (stateVideo\<lparr>isApiKeySelected := False\<rparr>) = Video"
    and sel: "selectedImage stateVideo = Some img0"
      "selectedImage (stateVideo\<lparr>isApiKeySelected := False\<rparr>) = Some img0"
    and prompt: "trim (videoPrompt stateVideo) \<noteq> []"
      "trim (videoPrompt (stateVideo\<lparr>isApiKeySelected := False\<rparr>)) \<noteq> []"
    by (simp_all add: stateVideo_def state0_def trim_def isWhiteSpace_def)
  have nokey: "\<not> hasSelectedApiKey envNoKey"
    by (simp add: envNoKey_def envSecondFails_def)
  have rejected: "hasSelectedApiKey envKeyRejected
      \<and> generateVideo (video envKeyRejected) (videoPrompt stateVideo) =
          Some (Inl (Error CREDENTIAL_MSG), [EvGenerateVideos ''A model walking on a runway.''])"
    by (simp add: envKeyRejected_def envSecondFails_def videoEnv0_def stateVideo_def state0_def
        generateVideo_submission_throws parseGeminiError_def lower_eval)
  from video_credential_gate [OF m(2) sel(2) prompt(2), THEN conjunct1, rule_format, OF nokey]
  have 1: "\<exists>s'. handleGenerate envNoKey (stateVideo\<lparr>isApiKeySelected := False\<rparr>) =
            Some (s', [EvHasSelectedApiKey, EvOpenSelectKey])
       \<and> isApiKeySelected s' = True \<and> error s' = Some RETRY_MSG"
    by blast
  from video_credential_gate [OF m(1) sel(1) prompt(1), THEN conjunct2, rule_format, OF rejected]
  have 2: "\<exists>s'. handleGenerate envKeyRejected stateVideo =
            Some (s', [EvHasSelectedApiKey, EvGenerateVideos ''A model walking on a runway.''])
       \<and> isApiKeySelected s' = False \<and> error s' = Some CREDENTIAL_MSG"
    by blast
  from 1 2 show ?thesis by blast
qed

section \<open>ClassificationQueue: the claims\<close>

lemma processFile_block: "is_block (tempIdOf env i f) (file_name f) (snd (processFile env i f s))"
  by (simp add: processFile_def classifyFile_def is_block_def is_failed_def is_added_def Let_def
      split: sum.splits)

lemma uploadLoop_Cons_fst:
  "fst (uploadLoop env i (f # files) s) = fst (uploadLoop env (Suc i) files (fst (processFile env i f s)))"
  by (simp split: prod.splits)

lemma uploadLoop_Cons_snd:
  "snd (uploadLoop env i (f # files) s) =
     snd (processFile env i f s) @ snd (uploadLoop env (Suc i) files (fst (processFile env i f s)))"
  by (simp split: prod.splits)

lemma uploadLoop_blocks:
  "\<exists>blocks. snd (uploadLoop env i files s) = concat blocks \<and> length blocks = length files
      \<and> (\<forall>j < length files. is_block (tempIdOf env (i + j) (files ! j)) (file_name (files ! j)) (blocks ! j))"
proof (induction files arbitrary: i s)
  case Nil
  then show ?case by simp
next
  case (Cons f files)
  obtain s1 tr where p: "processFile env i f s = (s1, tr)" by (cases "processFile env i f s")
  from Cons.IH [of "Suc i" s1] obtain blocks where
    b: "snd (uploadLoop env (Suc i) files s1) = concat blocks" "length blocks = length files"
      "\<forall>j < length files. is_block (tempIdOf env (Suc i + j) (files ! j)) (file_name (files ! j)) (blocks ! j)"
    by blast
  have first: "is_block (tempIdOf env i f) (file_name f) tr"
    using processFile_block [of env i f s] p by simp
  have "snd (uploadLoop env i (f # files) s) = concat (tr # blocks)"
    using p b(1) by (simp add: uploadLoop_Cons_snd del: uploadLoop.simps)
  moreover have "length (tr # blocks) = length (f # files)" using b(2) by simp
  moreover have "\<forall>j < length (f # files).
      is_block (tempIdOf env (i + j) ((f # files) ! j)) (file_name ((f # files) ! j)) ((tr # blocks) ! j)"
  proof (intro allI impI)
    fix j assume j: "j < length (f # files)"
    show "is_block (tempIdOf env (i + j) ((f # files) ! j)) (file_name ((f # files) ! j)) ((tr # blocks) ! j)"
    proof (cases j)
      case 0
      with first show ?thesis by simp
    next
      case (Suc j')
      with j b(3) show ?thesis by simp
    qed
  qed
  ultimately show ?case by blast
qed

lemma uploadLoop_append:
  "fst (uploadLoop env i (xs @ ys) s) = fst (uploadLoop env (i + length xs) ys (fst (uploadLoop env i xs s)))"
  by (induction xs arbitrary: i s) (simp_all add: uploadLoop_Cons_fst del: uploadLoop.simps(2))

lemma uploadLoop_snoc:
  "fst (uploadLoop env i (xs @ [f]) s) = fst (processFile env (i + length xs) f (fst (uploadLoop env i xs s)))"
  by (simp add: uploadLoop_append uploadLoop_Cons_fst del: uploadLoop.simps(2))

lemma processFile_failure_state:
  assumes "fileFailure env i = Some err"
  shows "classifyingItems (fst (processFile env i f s)) =
           map (\<lambda>item. if task_id item = tempIdOf env i f
                        then item\<lparr>task_error := Some (errorMessageOf err)\<rparr> else item)
               (classifyingItems s @
                  [\<lparr>task_id = tempIdOf env i f, task_name = file_name f, task_url = fileObjectURL env i,
                    task_error = None\<rparr>])
         \<and> femaleCatalogue (fst (processFile env i f s)) = femaleCatalogue s
         \<and> maleCatalogue (fst (processFile env i f s)) = maleCatalogue s"
  using assms
  by (simp add: processFile_def classifyFile_def fileFailure_def errorMessageOf_def Let_def
      split: sum.splits)

lemma processFile_success_state:
  assumes "fileFailure env i = None"
  shows "classifyingItems (fst (processFile env i f s)) =
           filter (\<lambda>item. task_id item \<noteq> tempIdOf env i f) (classifyingItems s)"
  using assms
  by (simp add: processFile_def classifyFile_def fileFailure_def Let_def handleItemAdd_def
      split: sum.splits)

lemma batchIds_Cons: "batchIds env i (f # files) = tempIdOf env i f # batchIds env (Suc i) files"
  by (simp add: batchIds_def)

lemma map_task_error_other:
  "tid \<notin> task_id ` set items \<Longrightarrow>
   map (\<lambda>item. if task_id item = tid then item\<lparr>task_error := e\<rparr> else item) items = items"
  by (induction items) auto

lemma filter_task_other:
  "tid \<notin> task_id ` set items \<Longrightarrow> filter (\<lambda>item. task_id item \<noteq> tid) items = items"
  by (induction items) auto

lemma processFile_fresh_id:
  assumes fresh: "tempIdOf env i f \<notin> task_id ` set (classifyingItems s)"
  shows "classifyingItems (fst (processFile env i f s)) = classifyingItems s @ failedTasks env i [f]"
proof (cases "fileFailure env i")
  case None
  with fresh show ?thesis
    by (simp add: processFile_success_state filter_task_other)
next
  case (Some err)
  with fresh show ?thesis
    by (simp add: processFile_failure_state map_task_error_other)
qed

lemma failedTasks_ids: "task_id ` set (failedTasks env i files) \<subseteq> set (batchIds env i files)"
  by (induction files arbitrary: i) (auto simp: batchIds_Cons split: option.splits)

lemma uploadLoop_distinct_ids:
  "distinct (map task_id (classifyingItems s) @ batchIds env i files) \<Longrightarrow>
   classifyingItems (fst (uploadLoop env i files s)) = classifyingItems s @ failedTasks env i files"
proof (induction files arbitrary: i s)
  case Nil
  then show ?case by simp
next
  case (Cons f files)
  from Cons.prems have fresh: "tempIdOf env i f \<notin> task_id ` set (classifyingItems s)"
    by (auto simp: batchIds_Cons)
  have step: "classifyingItems (fst (processFile env i f s)) = classifyingItems s @ failedTasks env i [f]"
    by (rule processFile_fresh_id [OF fresh])
  have "distinct (map task_id (classifyingItems s @ failedTasks env i [f]) @ batchIds env (Suc i) files)"
  proof (cases "fileFailure env i")
    case None
    with Cons.prems show ?thesis by (simp add: batchIds_Cons)
  next
    case (Some err)
    with Cons.prems fresh show ?thesis by (simp add: batchIds_Cons image_iff)
  qed
  with step have "distinct (map task_id (classifyingItems (fst (processFile env i f s)))
      @ batchIds env (Suc i) files)"
    by simp
  from Cons.IH [OF this] step show ?case
    by (simp add: uploadLoop_Cons_fst del: uploadLoop.simps(2))
qed

text \<open>
  Claim C8. For every batch of files: the events of the run are one block per file, in
  submission order; each block starts by adding the file's task, requests at most one
  classification, and ends with the task failed or removed followed by the cooldown of
  4500 ms, so that no classification request comes before the previous file's task is
  settled and the cooldown is over; a failure of a file is written, with its message, to
  every task with that file's id, and the loop goes on to the next file; and when the
  ids are new and pairwise distinct, the tasks left at the end are those that were
  there, followed by exactly the failed files' tasks with their messages.
\<close>

theorem classification_queue_sequencing:
  "(\<exists>blocks. snd (handleStyleUpload env files s) = concat blocks \<and> length blocks = length files
       \<and> (\<forall>i < length files.
             is_block (tempIdOf env i (files ! i)) (file_name (files ! i)) (blocks ! i)))
   \<and> (\<forall>i < length files. \<forall>err. fileFailure env i = Some err \<longrightarrow>
         (\<exists>t \<in> set (classifyingItems (fst (handleStyleUpload env (take (Suc i) files) s))).
             task_id t = tempIdOf env i (files ! i))
       \<and> (\<forall>t \<in> set (classifyingItems (fst (handleStyleUpload env (take (Suc i) files) s))).
             task_id t = tempIdOf env i (files ! i) \<longrightarrow> task_error t = Some (errorMessageOf err)))
   \<and> (distinct (map task_id (classifyingItems s) @ batchIds env 0 files) \<longrightarrow>
         classifyingItems (fst (handleStyleUpload env files s)) =
           classifyingItems s @ failedTasks env 0 files)"
proof (intro conjI allI impI)
  show "\<exists>blocks. snd (handleStyleUpload env files s) = concat blocks \<and> length blocks = length files
       \<and> (\<forall>i < length files.
             is_block (tempIdOf env i (files ! i)) (file_name (files ! i)) (blocks ! i))"
    using uploadLoop_blocks [of env 0 files s] by (simp add: handleStyleUpload_def)
next
  fix i err
  assume i: "i < length files" and fail: "fileFailure env i = Some err"
  let ?before = "fst (uploadLoop env 0 (take i files) s)"
  from i have tk: "take (Suc i) files = take i files @ [files ! i]"
    by (simp add: take_Suc_conv_app_nth)
  from i have after: "fst (handleStyleUpload env (take (Suc i) files) s) =
      fst (processFile env i (files ! i) ?before)"
    by (simp add: handleStyleUpload_def tk uploadLoop_snoc min_def)
  note st = processFile_failure_state [OF fail, of "files ! i" ?before, THEN conjunct1]
  show "\<exists>t \<in> set (classifyingItems (fst (handleStyleUpload env (take (Suc i) files) s))).
             task_id t = tempIdOf env i (files ! i)"
    unfolding after st by (simp add: image_iff)
  show "\<forall>t \<in> set (classifyingItems (fst (handleStyleUpload env (take (Suc i) files) s))).
             task_id t = tempIdOf env i (files ! i) \<longrightarrow> task_error t = Some (errorMessageOf err)"
    unfolding after st by auto
next
  assume "distinct (map task_id (classifyingItems s) @ batchIds env 0 files)"
  then show "classifyingItems (fst (handleStyleUpload env files s)) =
           classifyingItems s @ failedTasks env 0 files"
    by (simp add: handleStyleUpload_def uploadLoop_distinct_ids)
qed

theorem classification_queue_sequencing_witness:
  "snd (handleStyleUpload uploadEnv0 [fileA, fileB] state0) =
     [EvTaskAdded ''1000-a.png'', EvReadFile ''a.png'', EvClassify ''a.png'',
      EvTaskFailed ''1000-a.png'' QUOTA_MSG, EvSetTimeout 4500,
      EvTaskAdded ''6000-my.shirt.jpg'', EvReadFile ''my.shirt.jpg'', EvClassify ''my.shirt.jpg'',
      EvItemAdded ''6000-my.shirt.jpg'' ''tops'', EvTaskRemoved ''6000-my.shirt.jpg'',
      EvSetTimeout 4500]
   \<and> classifyingItems (fst (handleStyleUpload uploadEnv0 [fileA, fileB] state0)) =
       [\<lparr>task_id = ''1000-a.png'', task_name = ''a.png'', task_url = ''blob:f0'',
         task_error = Some QUOTA_MSG\<rparr>]
   \<and> (\<exists>t \<in> set (classifyingItems (fst (handleStyleUpload uploadEnv0 (take (Suc 0) [fileA, fileB]) state0))).
         task_id t = ''1000-a.png'' \<and> task_error t = Some QUOTA_MSG)"
proof -
  have quota: "parseGeminiError (Error ''429 quota exceeded'') = QUOTA_MSG"
    by (simp add: parseGeminiError_def lower_eval)
  have ids: "tempIdOf uploadEnv0 0 fileA = ''1000-a.png''"
      "tempIdOf uploadEnv0 (Suc 0) fileB = ''6000-my.shirt.jpg''"
    by (simp_all add: tempIdOf_def uploadEnv0_def fileA_def fileB_def char_eval)
  have fail: "fileFailure uploadEnv0 0 = Some (Error QUOTA_MSG)" "fileFailure uploadEnv0 (Suc 0) = None"
    by (simp_all add: fileFailure_def uploadEnv0_def readFileAsBase64_def classifyClothingItem_def
        classifyClothingItem_try_def truthy_def quota)
  have d: "distinct (map task_id (classifyingItems state0) @ batchIds uploadEnv0 0 [fileA, fileB])"
    by (simp add: state0_def batchIds_def ids)
  have tr: "snd (handleStyleUpload uploadEnv0 [fileA, fileB] state0) =
     [EvTaskAdded ''1000-a.png'', EvReadFile ''a.png'', EvClassify ''a.png'',
      EvTaskFailed ''1000-a.png'' QUOTA_MSG, EvSetTimeout 4500,
      EvTaskAdded ''6000-my.shirt.jpg'', EvReadFile ''my.shirt.jpg'', EvClassify ''my.shirt.jpg'',
      EvItemAdded ''6000-my.shirt.jpg'' ''tops'', EvTaskRemoved ''6000-my.shirt.jpg'',
      EvSetTimeout 4500]"
    by (simp add: handleStyleUpload_def processFile_def classifyFile_def tempIdOf_def Let_def
        readFileAsBase64_def classifyClothingItem_def classifyClothingItem_try_def truthy_def quota
        uploadEnv0_def fileA_def fileB_def char_eval)
  from classification_queue_sequencing [of uploadEnv0 "[fileA, fileB]" state0,
      THEN conjunct2, THEN conjunct2, rule_format, OF d]
  have "classifyingItems (fst (handleStyleUpload uploadEnv0 [fileA, fileB] state0)) =
       [\<lparr>task_id = ''1000-a.png'', task_name = ''a.png'', task_url = ''blob:f0'',
         task_error = Some QUOTA_MSG\<rparr>]"
    by (simp add: state0_def fail ids errorMessageOf_def)
      (simp add: uploadEnv0_def fileA_def char_eval)
  moreover
  from classification_queue_sequencing [of uploadEnv0 "[fileA, fileB]" state0,
      THEN conjunct2, THEN conjunct1, rule_format, of 0 "Error QUOTA_MSG"] fail(1)
  have "\<exists>t \<in> set (classifyingItems (fst (handleStyleUpload uploadEnv0 (take (Suc 0) [fileA, fileB]) state0))).
         task_id t = ''1000-a.png'' \<and> task_error t = Some QUOTA_MSG"
    by (auto simp: ids errorMessageOf_def)
  ultimately show ?thesis using tr by simp
qed

end
